theory Spec2Isabelle
  imports Main "HOL-Library.Multiset"
begin

section \<open>Values of the host language and of the libraries the store calls\<close>

text \<open>
  The tracker store of \<^verbatim>\<open>src/tracker_store.py\<close> is embedded with explicit state passing.
  A store is a value of the datatype \<open>store\<close>, one constructor per class; a method takes the
  store and the \<open>world\<close> (the wall clock, and the trace of what reached the event broker,
  the warning channel and the error callback) and returns its outcome with the store and
  the world as it leaves them. An exception is an \<open>exn\<close> in the outcome.
\<close>

datatype json = JNull | JBool bool | JNum int | JStr string
  | JList "json list" | JDict "(string \<times> json) list"

type_synonym pydict = "(string \<times> json) list"

datatype exn = NotImplementedError | AttributeError | UnicodeDecodeError
  | JSONDecodeError | UnpicklingError

text \<open>\<^verbatim>\<open>d.get(k, default)\<close> on a dict, and on an arbitrary value (only a dict has \<open>get\<close>).\<close>

definition dict_get :: "pydict \<Rightarrow> string \<Rightarrow> json \<Rightarrow> json" where
  "dict_get d k dflt = (case map_of d k of Some v \<Rightarrow> v | None \<Rightarrow> dflt)"

fun json_get :: "json \<Rightarrow> string \<Rightarrow> json \<Rightarrow> exn + json" where
  "json_get (JDict d) k dflt = Inr (dict_get d k dflt)"
| "json_get v k dflt = Inl AttributeError"

text \<open>\<^verbatim>\<open>d[k] = v\<close> keeps the position of a key already there; \<^verbatim>\<open>d.update(other)\<close>
  assigns the entries of \<open>other\<close> in their order.\<close>

fun dict_setitem :: "pydict \<Rightarrow> string \<Rightarrow> json \<Rightarrow> pydict" where
  "dict_setitem [] k v = [(k, v)]"
| "dict_setitem ((k', v') # d) k v =
     (if k' = k then (k, v) # d else (k', v') # dict_setitem d k v)"

definition dict_update :: "pydict \<Rightarrow> pydict \<Rightarrow> pydict" where
  "dict_update d other = foldl (\<lambda>acc (k, v). dict_setitem acc k v) d other"

text \<open>\<^verbatim>\<open>itertools.islice(xs, start, stop)\<close>, empty when \<open>stop \<le> start\<close>.\<close>

definition islice :: "'a list \<Rightarrow> nat \<Rightarrow> nat \<Rightarrow> 'a list" where
  "islice xs start stop = take (stop - start) (drop start xs)"

text \<open>The truth value of an \<^verbatim>\<open>Optional[bool]\<close>: \<^verbatim>\<open>None\<close> counts as false.\<close>

fun truthy :: "bool option \<Rightarrow> bool" where
  "truthy (Some b) = b"
| "truthy None = False"

subsection \<open>Events, dialogues, trackers\<close>

text \<open>
  Modelled from the spec: the event classes are not among the sources. An event is an
  opaque record with a type discriminator that serialises without loss to and from a
  structured text (spec, Data model). The store reads two members of it,
  \<^verbatim>\<open>type_name\<close> and \<^verbatim>\<open>as_dict()\<close>, so an event is the pair of them; and since the text
  \<^verbatim>\<open>json.dumps(event.as_dict())\<close> decodes back to the event, a stored text is
  represented by the event it decodes to.
\<close>

datatype event = Event (type_name: string) (as_dict: pydict)

definition ACTION_LISTEN_NAME :: string where
  "ACTION_LISTEN_NAME = ''action_listen''"

definition INTENT_NAME_KEY :: string where
  "INTENT_NAME_KEY = ''name''"

definition SessionStarted_type_name :: string where
  "SessionStarted_type_name = ''session_started''"

text \<open>
  Modelled from the spec: the two event classes the store names, the action event (the
  listening event is the action \<^verbatim>\<open>action_listen\<close>) and the session boundary, with the
  entries of their dict that the store reads.
\<close>

definition ActionExecuted :: "string \<Rightarrow> event" where
  "ActionExecuted action_name =
     Event ''action'' [(''event'', JStr ''action''), (''name'', JStr action_name)]"

definition SessionStarted :: event where
  "SessionStarted =
     Event SessionStarted_type_name [(''event'', JStr SessionStarted_type_name)]"

datatype domain = Domain (slots: "string list")

record dialogue =
  name :: string
  events :: "event list"

text \<open>
  Modelled from the spec: the tracker class is not among the sources. A tracker is the
  state rebuilt by replaying an event log (spec, Data model); of that state the store
  reads and writes the sender id and the events, and passes the slots of the domain and
  the history limit to the constructor. The limit is that of the queue the tracker keeps
  its events in, a \<^verbatim>\<open>deque(maxlen=max_event_history)\<close>: appending to a full queue drops
  events from the front, and \<^verbatim>\<open>None\<close> is no limit.
\<close>

record tracker =
  sender_id :: string
  slots :: "string list option"
  max_event_history :: "nat option"
  events :: "event list"

definition deque_extend :: "nat option \<Rightarrow> 'a list \<Rightarrow> 'a list \<Rightarrow> 'a list" where
  "deque_extend maxlen xs ys =
     (case maxlen of
        None \<Rightarrow> xs @ ys
      | Some n \<Rightarrow> drop (length (xs @ ys) - n) (xs @ ys))"

definition DialogueStateTracker :: "string \<Rightarrow> string list option \<Rightarrow> nat option \<Rightarrow> tracker" where
  "DialogueStateTracker sid sl maxlen =
     \<lparr>sender_id = sid, slots = sl, max_event_history = maxlen, events = []\<rparr>"

definition update :: "tracker \<Rightarrow> event \<Rightarrow> tracker" where
  "update t e =
     t\<lparr>tracker.events := deque_extend (max_event_history t) (tracker.events t) [e]\<rparr>"

definition from_dict :: "string \<Rightarrow> event list \<Rightarrow> string list \<Rightarrow> tracker" where
  "from_dict sid evts sl = foldl update (DialogueStateTracker sid (Some sl) None) evts"

definition as_dialogue :: "tracker \<Rightarrow> dialogue" where
  "as_dialogue t = \<lparr>name = sender_id t, events = tracker.events t\<rparr>"

definition recreate_from_dialogue :: "tracker \<Rightarrow> dialogue \<Rightarrow> tracker" where
  "recreate_from_dialogue t d =
     t\<lparr>tracker.events :=
         deque_extend (max_event_history t) (tracker.events t) (dialogue.events d)\<rparr>"

subsection \<open>Stored representations of a tracker\<close>

text \<open>
  Modelled from the spec: the two stored formats, the current textual one and the legacy
  binary one (spec, Tracker Store contract). What a key-value backend holds for a
  conversation is told apart by what the two decoders make of it: the text
  \<^verbatim>\<open>json.dumps\<close> wrote, which \<^verbatim>\<open>json.loads\<close> and \<^verbatim>\<open>Dialogue.from_parameters\<close> decode;
  the bytes of a binary pickle of a dialogue, which are not UTF-8, so that
  \<^verbatim>\<open>json.loads\<close> raises \<^verbatim>\<open>UnicodeDecodeError\<close>, and which \<^verbatim>\<open>pickle.loads\<close> decodes; and
  a text that is not JSON.
\<close>

datatype serialised = Text dialogue | Pickled dialogue | Malformed

fun json_loads :: "serialised \<Rightarrow> exn + dialogue" where
  "json_loads (Text d) = Inr d"
| "json_loads (Pickled d) = Inl UnicodeDecodeError"
| "json_loads Malformed = Inl JSONDecodeError"

fun pickle_loads :: "serialised \<Rightarrow> exn + dialogue" where
  "pickle_loads (Pickled d) = Inr d"
| "pickle_loads s = Inl UnpicklingError"

subsection \<open>The world outside the store\<close>

type_synonym broker = string
type_synonym callback = string

datatype effect =
    Published broker pydict
  | DeprecationWarning string
  | Called callback exn
  | Logged_error exn

text \<open>
  \<open>clock w i\<close> is what the \<open>i\<close>-th call of \<^verbatim>\<open>datetime.now\<close> returns, in microseconds;
  \<open>ticks\<close> counts the calls made so far. The \<open>trace\<close> lists, in order, the payloads
  given to \<^verbatim>\<open>event_broker.publish\<close>, the deprecation warnings raised, the calls of the
  error callback of a fail-safe store and the errors it logs without one.
\<close>

record world =
  clock :: "nat \<Rightarrow> int"
  ticks :: nat
  trace :: "effect list"

definition datetime_now :: "world \<Rightarrow> int \<times> world" where
  "datetime_now w = (clock w (ticks w), w\<lparr>ticks := Suc (ticks w)\<rparr>)"

definition emit :: "effect \<Rightarrow> world \<Rightarrow> world" where
  "emit x w = w\<lparr>trace := trace w @ [x]\<rparr>"

subsection \<open>The events table and the database engine\<close>

record SQLEvent =
  id :: nat
  sender_id :: string
  type_name :: string
  timestamp :: int
  intent_name :: json
  action_name :: json
  data :: event

text \<open>
  The table \<^verbatim>\<open>events\<close> of \<^verbatim>\<open>SQLTrackerStore.SQLEvent\<close>; \<open>data\<close> is the JSON text of the
  event. The engine is the table, in insertion order, and the way the database carries
  out \<^verbatim>\<open>ORDER BY timestamp\<close>. SQL fixes the order of the rows only up to rows with equal
  keys, so the function is a parameter; \<open>order_by_timestamp\<close> is all that SQL promises
  of it. The database is taken to be reachable and the schema of the environment, if
  one is named, to exist.
\<close>

record engine =
  table :: "SQLEvent list"
  order_by :: "SQLEvent list \<Rightarrow> SQLEvent list"

definition order_by_timestamp :: "(SQLEvent list \<Rightarrow> SQLEvent list) \<Rightarrow> bool" where
  "order_by_timestamp ob \<longleftrightarrow>
     (\<forall>rs. mset (ob rs) = mset rs \<and> sorted (map timestamp (ob rs)))"

section \<open>The stores\<close>

text \<open>
  The attributes \<^verbatim>\<open>TrackerStore.__init__\<close> sets, and one constructor per class: the base
  class, whose \<^verbatim>\<open>save\<close>, \<^verbatim>\<open>retrieve\<close> and \<^verbatim>\<open>keys\<close> raise \<^verbatim>\<open>NotImplementedError\<close>; the
  in-memory store with its dict \<^verbatim>\<open>store\<close>; the SQL store with its engine; the fail-safe
  store with its primary store, its fallback store if it has one, and its error callback
  if it has one.
\<close>

record base =
  domain :: "domain option"
  event_broker :: "broker option"
  max_event_history :: "nat option"
  retrieve_events_from_previous_conversation_sessions :: "bool option"

datatype store =
    TrackerStore base
  | InMemoryTrackerStore base "string \<rightharpoonup> serialised"
  | SQLTrackerStore base engine
  | FailSafeTrackerStore base store "store option" "callback option"


subsection \<open>Attributes shared by all stores\<close>

fun get_base :: "store \<Rightarrow> base" where
  "get_base (TrackerStore b) = b"
| "get_base (InMemoryTrackerStore b m) = b"
| "get_base (SQLTrackerStore b eng) = b"
| "get_base (FailSafeTrackerStore b p f cb) = b"

fun map_base :: "(base \<Rightarrow> base) \<Rightarrow> store \<Rightarrow> store" where
  "map_base g (TrackerStore b) = TrackerStore (g b)"
| "map_base g (InMemoryTrackerStore b m) = InMemoryTrackerStore (g b) m"
| "map_base g (SQLTrackerStore b eng) = SQLTrackerStore (g b) eng"
| "map_base g (FailSafeTrackerStore b p f cb) = FailSafeTrackerStore (g b) p f cb"

text \<open>\<^verbatim>\<open>self.domain\<close>: an attribute, and in the fail-safe store a property that reads the
  primary store's.\<close>

fun get_domain :: "store \<Rightarrow> domain option" where
  "get_domain (FailSafeTrackerStore b p f cb) = get_domain p"
| "get_domain (TrackerStore b) = domain b"
| "get_domain (InMemoryTrackerStore b m) = domain b"
| "get_domain (SQLTrackerStore b eng) = domain b"

text \<open>\<^verbatim>\<open>TrackerStore.__init__\<close> without the deprecated keyword argument.\<close>

definition TrackerStore_init :: "domain option \<Rightarrow> broker option \<Rightarrow> base" where
  "TrackerStore_init dm br =
     \<lparr>domain = dm, event_broker = br, max_event_history = None,
      retrieve_events_from_previous_conversation_sessions = None\<rparr>"

definition init_tracker :: "store \<Rightarrow> string \<Rightarrow> tracker" where
  "init_tracker s sid =
     DialogueStateTracker sid
       (case get_domain s of Some d \<Rightarrow> Some (domain.slots d) | None \<Rightarrow> None)
       (base.max_event_history (get_base s))"

subsection \<open>Serialising and deserialising a tracker\<close>

definition serialise_tracker :: "tracker \<Rightarrow> serialised" where
  "serialise_tracker t = Text (as_dialogue t)"

definition deserialize_dialogue_from_pickle ::
  "string \<Rightarrow> serialised \<Rightarrow> world \<Rightarrow> (exn + dialogue) \<times> world" where
  "deserialize_dialogue_from_pickle sid serialised_tracker w =
     (pickle_loads serialised_tracker,
      emit (DeprecationWarning (''Found pickled tracker for conversation ID '' @ sid)) w)"

definition deserialise_tracker ::
  "store \<Rightarrow> string \<Rightarrow> serialised \<Rightarrow> world \<Rightarrow> (exn + tracker) \<times> world" where
  "deserialise_tracker s sid serialised_tracker w =
     (let t = init_tracker s sid in
      case json_loads serialised_tracker of
        Inr d \<Rightarrow> (Inr (recreate_from_dialogue t d), w)
      | Inl e \<Rightarrow>
          if e = UnicodeDecodeError then
            (case deserialize_dialogue_from_pickle sid serialised_tracker w of
               (Inr d, w') \<Rightarrow> (Inr (recreate_from_dialogue t d), w')
             | (Inl e', w') \<Rightarrow> (Inl e', w'))
          else (Inl e, w))"

subsection \<open>Reading the events table\<close>

text \<open>The subquery: the greatest timestamp of a \<^verbatim>\<open>session_started\<close> row of the sender,
  \<^verbatim>\<open>NULL\<close> when there is none.\<close>

definition session_start_sub_query :: "engine \<Rightarrow> string \<Rightarrow> int option" where
  "session_start_sub_query eng sid =
     (case map timestamp
             (filter (\<lambda>r. SQLEvent.sender_id r = sid
                           \<and> SQLEvent.type_name r = SessionStarted_type_name) (table eng)) of
        [] \<Rightarrow> None
      | x # xs \<Rightarrow> Some (fold max xs x))"

text \<open>The rows the query of \<^verbatim>\<open>_event_query\<close> returns, in the order the engine gives them.\<close>

definition event_query :: "engine \<Rightarrow> string \<Rightarrow> bool option \<Rightarrow> SQLEvent list" where
  "event_query eng sid fetch_events_from_all_sessions =
     (let session_start = session_start_sub_query eng sid;
          rows = filter (\<lambda>r. SQLEvent.sender_id r = sid) (table eng);
          rows' = (if \<not> truthy fetch_events_from_all_sessions
                   then filter (\<lambda>r. case session_start of
                                       Some s \<Rightarrow> timestamp r \<ge> s
                                     | None \<Rightarrow> True) rows
                   else rows)
      in order_by eng rows')"

definition SQL_retrieve :: "base \<Rightarrow> engine \<Rightarrow> string \<Rightarrow> bool \<Rightarrow> tracker option" where
  "SQL_retrieve b eng sid fetch_events_from_all_sessions =
     (let evts = map data (event_query eng sid (Some fetch_events_from_all_sessions)) in
      case domain b of
        Some d \<Rightarrow> if length evts > 0 then Some (from_dict sid evts (domain.slots d)) else None
      | None \<Rightarrow> None)"

subsection \<open>\<^verbatim>\<open>retrieve\<close>, \<^verbatim>\<open>retrieve_full_tracker\<close>, \<^verbatim>\<open>keys\<close>\<close>

definition on_tracker_store_error :: "callback option \<Rightarrow> exn \<Rightarrow> world \<Rightarrow> world" where
  "on_tracker_store_error cb e w =
     (case cb of Some c \<Rightarrow> emit (Called c e) w | None \<Rightarrow> emit (Logged_error e) w)"

fun retrieve :: "store \<Rightarrow> string \<Rightarrow> world \<Rightarrow> (exn + tracker option) \<times> world" where
  "retrieve (TrackerStore b) sid w = (Inl NotImplementedError, w)"
| "retrieve (InMemoryTrackerStore b m) sid w =
     (case m sid of
        Some ser \<Rightarrow>
          (case deserialise_tracker (InMemoryTrackerStore b m) sid ser w of
             (Inr t, w') \<Rightarrow> (Inr (Some t), w')
           | (Inl e, w') \<Rightarrow> (Inl e, w'))
      | None \<Rightarrow> (Inr None, w))"
| "retrieve (SQLTrackerStore b eng) sid w =
     (if truthy (retrieve_events_from_previous_conversation_sessions b)
      then (Inr (SQL_retrieve b eng sid True), w)
      else (Inr (SQL_retrieve b eng sid False), w))"
| "retrieve (FailSafeTrackerStore b p f cb) sid w =
     (case retrieve p sid w of
        (Inr r, w') \<Rightarrow> (Inr r, w')
      | (Inl e, w') \<Rightarrow> (Inr None, on_tracker_store_error cb e w'))"

fun retrieve_full_tracker :: "store \<Rightarrow> string \<Rightarrow> world \<Rightarrow> (exn + tracker option) \<times> world" where
  "retrieve_full_tracker (SQLTrackerStore b eng) sid w = (Inr (SQL_retrieve b eng sid True), w)"
| "retrieve_full_tracker s sid w = retrieve s sid w"

fun keys :: "store \<Rightarrow> world \<Rightarrow> (exn + string set) \<times> world" where
  "keys (TrackerStore b) w = (Inl NotImplementedError, w)"
| "keys (InMemoryTrackerStore b m) w = (Inr (dom m), w)"
| "keys (SQLTrackerStore b eng) w = (Inr (set (map SQLEvent.sender_id (table eng))), w)"
| "keys (FailSafeTrackerStore b p f cb) w =
     (case keys p w of
        (Inr ks, w') \<Rightarrow> (Inr ks, w')
      | (Inl e, w') \<Rightarrow> (Inr {}, on_tracker_store_error cb e w'))"

definition exists :: "store \<Rightarrow> string \<Rightarrow> world \<Rightarrow> (exn + bool) \<times> world" where
  "exists s sid w =
     (case retrieve s sid w of
        (Inr r, w') \<Rightarrow> (Inr (r \<noteq> None), w')
      | (Inl e, w') \<Rightarrow> (Inl e, w'))"

subsection \<open>Streaming to the event broker\<close>

text \<open>\<^verbatim>\<open>TrackerStore.number_of_existing_events\<close> and \<^verbatim>\<open>TrackerStore.stream_events\<close>;
  \<open>body\<close> is the payload of one event and \<open>publish_all\<close> the loop over the events.\<close>

definition number_of_existing_events :: "store \<Rightarrow> string \<Rightarrow> world \<Rightarrow> (exn + nat) \<times> world" where
  "number_of_existing_events s sid w =
     (case retrieve s sid w of
        (Inr old_tracker, w') \<Rightarrow>
          (Inr (case old_tracker of Some t \<Rightarrow> length (tracker.events t) | None \<Rightarrow> 0), w')
      | (Inl e, w') \<Rightarrow> (Inl e, w'))"

definition body :: "string \<Rightarrow> event \<Rightarrow> pydict" where
  "body sid e = dict_update [(''sender_id'', JStr sid)] (as_dict e)"

fun publish_all :: "broker option \<Rightarrow> string \<Rightarrow> event list \<Rightarrow> world \<Rightarrow> exn option \<times> world" where
  "publish_all br sid [] w = (None, w)"
| "publish_all br sid (e # es) w =
     (case br of
        None \<Rightarrow> (Some AttributeError, w)
      | Some bk \<Rightarrow> publish_all br sid es (emit (Published bk (body sid e)) w))"

definition stream_events :: "store \<Rightarrow> tracker \<Rightarrow> world \<Rightarrow> exn option \<times> world" where
  "stream_events s t w =
     (case number_of_existing_events s (tracker.sender_id t) w of
        (Inl e, w') \<Rightarrow> (Some e, w')
      | (Inr offset, w') \<Rightarrow>
          publish_all (event_broker (get_base s)) (tracker.sender_id t)
            (islice (tracker.events t) offset (length (tracker.events t))) w')"


subsection \<open>Writing the events table\<close>

text \<open>\<^verbatim>\<open>data.get("parse_data", {}).get("intent", {}).get(INTENT_NAME_KEY)\<close>\<close>

definition intent_of :: "pydict \<Rightarrow> exn + json" where
  "intent_of d =
     (case json_get (dict_get d ''parse_data'' (JDict [])) ''intent'' (JDict []) of
        Inl e \<Rightarrow> Inl e
      | Inr i \<Rightarrow> json_get i INTENT_NAME_KEY JNull)"

definition additional_events :: "base \<Rightarrow> engine \<Rightarrow> tracker \<Rightarrow> event list" where
  "additional_events b eng t =
     (let number_of_events_since_last_session =
            length (event_query eng (tracker.sender_id t)
                      (retrieve_events_from_previous_conversation_sessions b))
      in islice (tracker.events t) number_of_events_since_last_session
           (length (tracker.events t)))"

text \<open>
  The loop of \<^verbatim>\<open>SQLTrackerStore.save\<close> over the additional events: \<open>pending\<close> are the rows
  added to the session so far. The sequence gives a row the next free \<open>id\<close>.
\<close>

fun add_events ::
  "engine \<Rightarrow> string \<Rightarrow> event list \<Rightarrow> SQLEvent list \<Rightarrow> world \<Rightarrow> (exn + SQLEvent list) \<times> world"
where
  "add_events eng sid [] pending w = (Inr pending, w)"
| "add_events eng sid (e # es) pending w =
     (case intent_of (as_dict e) of
        Inl x \<Rightarrow> (Inl x, w)
      | Inr intent \<Rightarrow>
          (case datetime_now w of
             (ts, w') \<Rightarrow>
               add_events eng sid es
                 (pending @
                  [\<lparr>id = Suc (length (table eng) + length pending),
                    sender_id = sid,
                    type_name = event.type_name e,
                    timestamp = ts,
                    intent_name = intent,
                    action_name = dict_get (as_dict e) ''name'' JNull,
                    data = e\<rparr>]) w'))"

text \<open>An exception in the loop leaves the session without a commit: the table is as before.\<close>

definition SQLTrackerStore_save ::
  "base \<Rightarrow> engine \<Rightarrow> tracker \<Rightarrow> world \<Rightarrow> exn option \<times> store \<times> world" where
  "SQLTrackerStore_save b eng t w =
     (case (if event_broker b \<noteq> None
            then stream_events (SQLTrackerStore b eng) t w else (None, w)) of
        (Some e, w1) \<Rightarrow> (Some e, SQLTrackerStore b eng, w1)
      | (None, w1) \<Rightarrow>
          (case add_events eng (tracker.sender_id t) (additional_events b eng t) [] w1 of
             (Inl e, w2) \<Rightarrow> (Some e, SQLTrackerStore b eng, w2)
           | (Inr rows, w2) \<Rightarrow>
               (None, SQLTrackerStore b (eng\<lparr>table := table eng @ rows\<rparr>), w2)))"

definition InMemoryTrackerStore_save ::
  "base \<Rightarrow> (string \<rightharpoonup> serialised) \<Rightarrow> tracker \<Rightarrow> world \<Rightarrow> exn option \<times> store \<times> world" where
  "InMemoryTrackerStore_save b m t w =
     (case (if event_broker b \<noteq> None
            then stream_events (InMemoryTrackerStore b m) t w else (None, w)) of
        (Some e, w1) \<Rightarrow> (Some e, InMemoryTrackerStore b m, w1)
      | (None, w1) \<Rightarrow>
          (None, InMemoryTrackerStore b (m(tracker.sender_id t \<mapsto> serialise_tracker t)), w1))"

text \<open>
  \<^verbatim>\<open>save\<close> of each class. In the fail-safe store the fallback is the one given, or an
  in-memory store made on first use with the primary's domain and broker.
\<close>

fun save :: "store \<Rightarrow> tracker \<Rightarrow> world \<Rightarrow> exn option \<times> store \<times> world" where
  "save (TrackerStore b) t w = (Some NotImplementedError, TrackerStore b, w)"
| "save (InMemoryTrackerStore b m) t w = InMemoryTrackerStore_save b m t w"
| "save (SQLTrackerStore b eng) t w = SQLTrackerStore_save b eng t w"
| "save (FailSafeTrackerStore b p f cb) t w =
     (case save p t w of
        (None, p', w1) \<Rightarrow> (None, FailSafeTrackerStore b p' f cb, w1)
      | (Some e, p', w1) \<Rightarrow>
          (case f of
             Some fb \<Rightarrow>
               (case save fb t (on_tracker_store_error cb e w1) of
                  (r, fb', w2) \<Rightarrow> (r, FailSafeTrackerStore b p' (Some fb') cb, w2))
           | None \<Rightarrow>
               (case InMemoryTrackerStore_save
                       (TrackerStore_init (get_domain p') (event_broker (get_base p')))
                       Map.empty t (on_tracker_store_error cb e w1) of
                  (r, fb', w2) \<Rightarrow> (r, FailSafeTrackerStore b p' (Some fb') cb, w2))))"

subsection \<open>Creating trackers\<close>

definition create_tracker ::
  "store \<Rightarrow> string \<Rightarrow> bool \<Rightarrow> world \<Rightarrow> (exn + tracker) \<times> store \<times> world" where
  "create_tracker s sid append_action_listen w =
     (let t = init_tracker s sid;
          t' = (if append_action_listen then update t (ActionExecuted ACTION_LISTEN_NAME) else t)
      in case save s t' w of
           (None, s', w') \<Rightarrow> (Inr t', s', w')
         | (Some e, s', w') \<Rightarrow> (Inl e, s', w'))"

definition get_or_create_tracker ::
  "store \<Rightarrow> string \<Rightarrow> nat option \<Rightarrow> bool \<Rightarrow> world \<Rightarrow> (exn + tracker) \<times> store \<times> world" where
  "get_or_create_tracker s sid max_history append_action_listen w =
     (let s1 = map_base (\<lambda>b. b\<lparr>base.max_event_history := max_history\<rparr>) s in
      case retrieve s1 sid w of
        (Inl e, w1) \<Rightarrow> (Inl e, s1, w1)
      | (Inr (Some t), w1) \<Rightarrow> (Inr t, s1, w1)
      | (Inr None, w1) \<Rightarrow> create_tracker s1 sid append_action_listen w1)"


section \<open>Notions used in the statements\<close>

text \<open>The rows of the events table behind an SQL store.\<close>

fun persisted_rows :: "store \<Rightarrow> SQLEvent list" where
  "persisted_rows (SQLTrackerStore b eng) = table eng"
| "persisted_rows s = []"

text \<open>An event is storable when the lookup of its intent name in \<open>save\<close> does not raise:
  the entries \<^verbatim>\<open>parse_data\<close> and \<^verbatim>\<open>intent\<close> of its dict, where present, are dicts.\<close>

definition storable :: "event \<Rightarrow> bool" where
  "storable e \<longleftrightarrow> (case intent_of (as_dict e) of Inr i \<Rightarrow> True | Inl x \<Rightarrow> False)"

text \<open>The rows of a conversation, in insertion order.\<close>

definition rows_of :: "engine \<Rightarrow> string \<Rightarrow> SQLEvent list" where
  "rows_of eng sid = filter (\<lambda>r. SQLEvent.sender_id r = sid) (table eng)"

text \<open>The timestamps of the given rows, and after them the next \<open>n\<close> readings of the
  clock, are strictly increasing.\<close>

definition stamps_increasing :: "SQLEvent list \<Rightarrow> world \<Rightarrow> nat \<Rightarrow> bool" where
  "stamps_increasing rows w n \<longleftrightarrow>
     sorted_wrt (<) (map timestamp rows @ map (clock w) [ticks w..<ticks w + n])"

text \<open>A history limit, if there is one, admits \<open>n\<close> events.\<close>

definition within_history :: "nat option \<Rightarrow> nat \<Rightarrow> bool" where
  "within_history maxlen n \<longleftrightarrow> (case maxlen of None \<Rightarrow> True | Some k \<Rightarrow> n \<le> k)"

section \<open>Example values\<close>

definition ex_world :: world where
  "ex_world = \<lparr>clock = (\<lambda>i. int i), ticks = 0, trace = []\<rparr>"

text \<open>A clock that returns the same reading at every call.\<close>

definition ex_frozen_world :: world where
  "ex_frozen_world = \<lparr>clock = (\<lambda>i. 0), ticks = 0, trace = []\<rparr>"

definition ex_tracker :: "event list \<Rightarrow> tracker" where
  "ex_tracker evts = (DialogueStateTracker ''u1'' (Some []) None)\<lparr>tracker.events := evts\<rparr>"

definition ex_base :: base where
  "ex_base = TrackerStore_init (Some (Domain [])) (Some ''broker'')"

text \<open>Two engines with an empty table: one returns rows of equal timestamp in insertion
  order, the other the newest first. Both carry out \<^verbatim>\<open>ORDER BY timestamp\<close>.\<close>

definition ex_engine :: engine where
  "ex_engine = \<lparr>table = [], order_by = sort_key timestamp\<rparr>"

definition ex_engine_newest_first :: engine where
  "ex_engine_newest_first = \<lparr>table = [], order_by = (\<lambda>rs. sort_key timestamp (rev rs))\<rparr>"

definition ex_log :: "event list" where
  "ex_log = [ActionExecuted ''greet'', SessionStarted, ActionExecuted ''utter_hello'',
             ActionExecuted ACTION_LISTEN_NAME]"

definition ex_row :: "nat \<Rightarrow> int \<Rightarrow> event \<Rightarrow> SQLEvent" where
  "ex_row i ts e =
     \<lparr>id = i, sender_id = ''u1'', type_name = event.type_name e, timestamp = ts,
      intent_name = JNull, action_name = dict_get (as_dict e) ''name'' JNull, data = e\<rparr>"

definition ex_engine_log :: engine where
  "ex_engine_log =
     \<lparr>table = [ex_row 1 0 (ActionExecuted ''greet''), ex_row 2 1 SessionStarted,
               ex_row 3 2 (ActionExecuted ''utter_hello''),
               ex_row 4 3 (ActionExecuted ACTION_LISTEN_NAME)],
      order_by = sort_key timestamp\<rparr>"

text \<open>A conversation created in an SQL store, then saved with a session start and an
  action appended.\<close>

definition ex_created :: "(exn + tracker) \<times> store \<times> world" where
  "ex_created =
     get_or_create_tracker (SQLTrackerStore ex_base ex_engine) ''u1'' None True ex_world"

definition ex_saved :: "exn option \<times> store \<times> world" where
  "ex_saved =
     save (fst (snd ex_created))
       (foldl update (ex_tracker [ActionExecuted ACTION_LISTEN_NAME])
          [SessionStarted, ActionExecuted ''greet''])
       (snd (snd ex_created))"

section \<open>Basic facts\<close>

lemma publish_all_Some:
  "publish_all (Some bk) sid es w =
     (None, w\<lparr>trace := trace w @ map (\<lambda>e. Published bk (body sid e)) es\<rparr>)"
  by (induction es arbitrary: w) (simp_all add: emit_def)

lemma get_base_map_base: "get_base (map_base g s) = g (get_base s)"
  by (cases s) simp_all

lemma get_base_save: "get_base (fst (snd (save s t w))) = get_base s"
  by (cases s)
     (auto simp: InMemoryTrackerStore_save_def SQLTrackerStore_save_def
           split: prod.splits option.splits sum.splits if_splits)

lemma get_base_create_tracker:
  "get_base (fst (snd (create_tracker s sid aal w))) = get_base s"
proof -
  let ?t = "if aal then update (init_tracker s sid) (ActionExecuted ACTION_LISTEN_NAME)
            else init_tracker s sid"
  obtain r s' w' where sv: "save s ?t w = (r, s', w')"
    by (cases "save s ?t w") auto
  from get_base_save [of s ?t w] sv have "get_base s' = get_base s"
    by simp
  with sv show ?thesis
    by (cases r) (simp_all add: create_tracker_def Let_def)
qed

lemma get_base_get_or_create_tracker:
  "get_base (fst (snd (get_or_create_tracker s sid mh aal w)))
     = (get_base s)\<lparr>base.max_event_history := mh\<rparr>"
  by (simp add: get_or_create_tracker_def Let_def get_base_create_tracker get_base_map_base
           split: prod.splits sum.splits option.splits)

lemma InMemoryTrackerStore_save_cases:
  "fst (snd (InMemoryTrackerStore_save b m t w)) = InMemoryTrackerStore b m
   \<or> fst (snd (InMemoryTrackerStore_save b m t w))
        = InMemoryTrackerStore b (m(tracker.sender_id t \<mapsto> serialise_tracker t))"
  by (simp add: InMemoryTrackerStore_save_def split: prod.splits option.splits)

lemma retrieve_InMemory_cong:
  "m' sid = m sid \<Longrightarrow>
   retrieve (InMemoryTrackerStore b m') sid w = retrieve (InMemoryTrackerStore b m) sid w"
  by (simp add: deserialise_tracker_def init_tracker_def split: option.splits)

lemma fresh_InMemory_save:
  "InMemoryTrackerStore_save b Map.empty t w =
     (None, InMemoryTrackerStore b [tracker.sender_id t \<mapsto> serialise_tracker t],
      case event_broker b of
        None \<Rightarrow> w
      | Some bk \<Rightarrow>
          w\<lparr>trace := trace w @ map (\<lambda>e. Published bk (body (tracker.sender_id t) e))
                                  (tracker.events t)\<rparr>)"
  by (cases "event_broker b")
     (simp_all add: InMemoryTrackerStore_save_def stream_events_def
        number_of_existing_events_def publish_all_Some islice_def)

lemma order_by_Nil: "order_by_timestamp ob \<Longrightarrow> ob [] = []"
  by (metis order_by_timestamp_def mset_zero_iff)

lemma order_by_strictly_sorted:
  assumes ob: "order_by_timestamp ob" and s: "sorted_wrt (<) (map timestamp rs)"
  shows "ob rs = rs"
proof (rule map_sorted_distinct_set_unique [where f = timestamp])
  from ob have m: "mset (ob rs) = mset rs" and so: "sorted (map timestamp (ob rs))"
    by (simp_all add: order_by_timestamp_def)
  from s have srt: "sorted (map timestamp rs)" and d: "distinct (map timestamp rs)"
    by (simp_all add: strict_sorted_iff)
  from m show eq: "set (ob rs) = set rs" by (rule mset_eq_setD)
  from d have "inj_on timestamp (set rs)" by (simp add: distinct_map)
  with eq show "inj_on timestamp (set (ob rs) \<union> set rs)" by simp
  show "sorted (map timestamp (ob rs))" by (rule so)
  from m have "mset (map timestamp (ob rs)) = mset (map timestamp rs)" by simp
  with d show "distinct (map timestamp (ob rs))" by (metis mset_eq_imp_distinct_iff)
  show "sorted (map timestamp rs)" by (rule srt)
  show "distinct (map timestamp rs)" by (rule d)
qed

lemma order_by_stable: "order_by_timestamp (sort_key timestamp)"
  by (simp add: order_by_timestamp_def)

lemma order_by_newest_first:
  "order_by_timestamp (\<lambda>rs. sort_key timestamp (rev rs))"
  by (simp add: order_by_timestamp_def)

lemma events_foldl_update:
  "tracker.max_event_history t = None \<Longrightarrow>
   foldl update t es = t\<lparr>tracker.events := tracker.events t @ es\<rparr>"
  by (induction es arbitrary: t) (simp_all add: update_def deque_extend_def)

lemma from_dict_eq:
  "from_dict sid es sl = (DialogueStateTracker sid (Some sl) None)\<lparr>tracker.events := es\<rparr>"
  by (simp add: from_dict_def events_foldl_update DialogueStateTracker_def)

lemma deque_extend_within:
  "within_history maxlen (length xs + length ys) \<Longrightarrow> deque_extend maxlen xs ys = xs @ ys"
  by (simp add: within_history_def deque_extend_def split: option.splits)

lemma within_history_mono: "within_history maxlen n \<Longrightarrow> k \<le> n \<Longrightarrow> within_history maxlen k"
  by (simp add: within_history_def split: option.splits)

lemma foldl_update_within:
  "within_history (tracker.max_event_history t) (length (tracker.events t) + length es) \<Longrightarrow>
   foldl update t es = t\<lparr>tracker.events := tracker.events t @ es\<rparr>"
proof (induction es arbitrary: t)
  case Nil
  then show ?case by simp
next
  case (Cons e es)
  from Cons.prems have "within_history (tracker.max_event_history t) (length (tracker.events t) + length [e])"
    by (rule within_history_mono) simp
  then have u: "update t e = t\<lparr>tracker.events := tracker.events t @ [e]\<rparr>"
    by (simp add: update_def deque_extend_within)
  with Cons.prems have "within_history (tracker.max_event_history (update t e))
      (length (tracker.events (update t e)) + length es)"
    by simp
  from Cons.IH [OF this] u show ?case by simp
qed

lemma listening_tracker:
  assumes "within_history (base.max_event_history (get_base s)) (Suc 0)"
  shows "tracker.events (update (init_tracker s sid) e) = [e]"
    and "tracker.sender_id (update (init_tracker s sid) e) = sid"
    and "tracker.max_event_history (update (init_tracker s sid) e)
           = base.max_event_history (get_base s)"
  using assms
  by (simp_all add: update_def init_tracker_def DialogueStateTracker_def deque_extend_within)

lemma storable_ActionExecuted: "storable (ActionExecuted a)"
  by (simp add: storable_def ActionExecuted_def intent_of_def dict_get_def)

lemma type_name_ActionExecuted: "event.type_name (ActionExecuted a) \<noteq> SessionStarted_type_name"
  by (simp add: ActionExecuted_def SessionStarted_type_name_def)

lemma add_events_rows:
  assumes "\<forall>e\<in>set es. storable e"
  shows "\<exists>new. add_events eng sid es pending w
            = (Inr (pending @ new), w\<lparr>ticks := ticks w + length es\<rparr>)
          \<and> map data new = es
          \<and> map timestamp new = map (clock w) [ticks w..<ticks w + length es]
          \<and> map SQLEvent.sender_id new = replicate (length es) sid
          \<and> map SQLEvent.type_name new = map event.type_name es
          \<and> map action_name new = map (\<lambda>e. dict_get (as_dict e) ''name'' JNull) es"
  using assms
proof (induction es arbitrary: pending w)
  case Nil
  then show ?case by simp
next
  case (Cons e es)
  from Cons.prems obtain i where i: "intent_of (as_dict e) = Inr i"
    by (auto simp: storable_def split: sum.splits)
  let ?row = "\<lparr>id = Suc (length (table eng) + length pending), sender_id = sid,
                type_name = event.type_name e, timestamp = clock w (ticks w),
                intent_name = i, action_name = dict_get (as_dict e) ''name'' JNull,
                data = e\<rparr>"
  let ?w = "w\<lparr>ticks := Suc (ticks w)\<rparr>"
  from Cons.prems have "\<forall>e\<in>set es. storable e" by simp
  from Cons.IH [OF this, of "pending @ [?row]" ?w]
  obtain new where new: "add_events eng sid es (pending @ [?row]) ?w
        = (Inr ((pending @ [?row]) @ new), ?w\<lparr>ticks := ticks ?w + length es\<rparr>)"
      "map data new = es"
      "map timestamp new = map (clock ?w) [ticks ?w..<ticks ?w + length es]"
      "map SQLEvent.sender_id new = replicate (length es) sid"
      "map SQLEvent.type_name new = map event.type_name es"
      "map action_name new = map (\<lambda>e. dict_get (as_dict e) ''name'' JNull) es"
    by blast
  have "[ticks w..<Suc (ticks w + length es)]
          = ticks w # [Suc (ticks w)..<Suc (ticks w + length es)]"
    by (rule upt_conv_Cons) simp
  with new i show ?case
    by (intro exI [of _ "?row # new"]) (simp add: datetime_now_def del: upt_Suc)
qed

lemma stream_events_SQL:
  "event_broker b = Some bk \<Longrightarrow>
   stream_events (SQLTrackerStore b eng) t w
     = (None, w\<lparr>trace := trace w @
          map (\<lambda>e. Published bk (body (tracker.sender_id t) e))
            (islice (tracker.events t)
               (case SQL_retrieve b eng (tracker.sender_id t)
                       (truthy (retrieve_events_from_previous_conversation_sessions b)) of
                  None \<Rightarrow> 0 | Some t' \<Rightarrow> length (tracker.events t'))
               (length (tracker.events t)))\<rparr>)"
  by (simp add: stream_events_def number_of_existing_events_def publish_all_Some)

lemma SQLTrackerStore_save_rows:
  assumes "\<forall>e\<in>set (additional_events b eng t). storable e"
  shows "\<exists>new tr. save (SQLTrackerStore b eng) t w
            = (None, SQLTrackerStore b (eng\<lparr>table := table eng @ new\<rparr>),
               w\<lparr>ticks := ticks w + length (additional_events b eng t), trace := tr\<rparr>)
          \<and> map data new = additional_events b eng t
          \<and> map timestamp new
              = map (clock w) [ticks w..<ticks w + length (additional_events b eng t)]
          \<and> map SQLEvent.sender_id new
              = replicate (length (additional_events b eng t)) (tracker.sender_id t)
          \<and> map SQLEvent.type_name new = map event.type_name (additional_events b eng t)
          \<and> map action_name new
              = map (\<lambda>e. dict_get (as_dict e) ''name'' JNull) (additional_events b eng t)"
proof -
  obtain tr where st: "(if event_broker b \<noteq> None
            then stream_events (SQLTrackerStore b eng) t w else (None, w)) = (None, w\<lparr>trace := tr\<rparr>)"
  proof (cases "event_broker b")
    case None
    then have "(if event_broker b \<noteq> None
            then stream_events (SQLTrackerStore b eng) t w else (None, w)) = (None, w\<lparr>trace := trace w\<rparr>)"
      by simp
    then show ?thesis by (rule that)
  next
    case (Some bk)
    from stream_events_SQL [OF this] obtain tr where
      "stream_events (SQLTrackerStore b eng) t w = (None, w\<lparr>trace := tr\<rparr>)" by metis
    with Some have "(if event_broker b \<noteq> None
            then stream_events (SQLTrackerStore b eng) t w else (None, w)) = (None, w\<lparr>trace := tr\<rparr>)"
      by simp
    then show ?thesis by (rule that)
  qed
  from add_events_rows [OF assms, of eng "tracker.sender_id t" "[]" "w\<lparr>trace := tr\<rparr>"]
  obtain new where new:
      "add_events eng (tracker.sender_id t) (additional_events b eng t) [] (w\<lparr>trace := tr\<rparr>)
        = (Inr new, w\<lparr>trace := tr, ticks := ticks w + length (additional_events b eng t)\<rparr>)"
      "map data new = additional_events b eng t"
      "map timestamp new = map (clock w) [ticks w..<ticks w + length (additional_events b eng t)]"
      "map SQLEvent.sender_id new
          = replicate (length (additional_events b eng t)) (tracker.sender_id t)"
      "map SQLEvent.type_name new = map event.type_name (additional_events b eng t)"
      "map action_name new
          = map (\<lambda>e. dict_get (as_dict e) ''name'' JNull) (additional_events b eng t)"
    by auto
  with st show ?thesis
    by (intro exI [of _ new] exI [of _ tr]) (simp add: SQLTrackerStore_save_def)
qed

lemma filter_sender_replicate:
  "map SQLEvent.sender_id rs = replicate n sid \<Longrightarrow>
   filter (\<lambda>r. SQLEvent.sender_id r = sid) rs = rs"
proof -
  assume a: "map SQLEvent.sender_id rs = replicate n sid"
  have "\<forall>r\<in>set rs. SQLEvent.sender_id r = sid"
  proof
    fix r assume "r \<in> set rs"
    then have "SQLEvent.sender_id r \<in> set (map SQLEvent.sender_id rs)" by simp
    with a show "SQLEvent.sender_id r = sid" by simp
  qed
  then show ?thesis by simp
qed

lemma filter_sender_fresh:
  "sid \<notin> SQLEvent.sender_id ` set rs \<Longrightarrow> filter (\<lambda>r. SQLEvent.sender_id r = sid) rs = []"
  by (auto simp: filter_empty_conv)

lemma filter_sender_type:
  "filter (\<lambda>r. SQLEvent.sender_id r = sid \<and> P r) rs
     = filter P (filter (\<lambda>r. SQLEvent.sender_id r = sid) rs)"
  by (induction rs) simp_all

lemma event_query_fresh:
  "order_by_timestamp (order_by eng) \<Longrightarrow> sid \<notin> SQLEvent.sender_id ` set (table eng) \<Longrightarrow>
   event_query eng sid f = []"
  by (simp add: event_query_def Let_def filter_sender_fresh order_by_Nil)

lemma rows_of_fresh: "rows_of eng sid = [] \<longleftrightarrow> sid \<notin> SQLEvent.sender_id ` set (table eng)"
  by (auto simp: rows_of_def filter_empty_conv)

lemma event_query_all:
  assumes "order_by_timestamp (order_by eng)"
    and "sorted_wrt (<) (map timestamp (filter (\<lambda>r. SQLEvent.sender_id r = sid) (table eng)))"
    and "truthy f"
  shows "event_query eng sid f = filter (\<lambda>r. SQLEvent.sender_id r = sid) (table eng)"
  using assms by (simp add: event_query_def Let_def order_by_strictly_sorted)

lemma event_query_no_session:
  assumes ob: "order_by_timestamp (order_by eng)"
    and so: "sorted_wrt (<) (map timestamp (filter (\<lambda>r. SQLEvent.sender_id r = sid) (table eng)))"
    and ns: "\<forall>r\<in>set (filter (\<lambda>r. SQLEvent.sender_id r = sid) (table eng)).
               SQLEvent.type_name r \<noteq> SessionStarted_type_name"
  shows "event_query eng sid f = filter (\<lambda>r. SQLEvent.sender_id r = sid) (table eng)"
proof -
  have "filter (\<lambda>r. SQLEvent.sender_id r = sid \<and> SQLEvent.type_name r = SessionStarted_type_name)
          (table eng) = []"
    using ns by (auto simp: filter_empty_conv)
  then have "session_start_sub_query eng sid = None"
    by (simp add: session_start_sub_query_def)
  with ob so show ?thesis
    by (simp add: event_query_def Let_def order_by_strictly_sorted)
qed

lemma SQL_round_trip:
  assumes ob: "order_by_timestamp (order_by eng)"
    and dm: "domain b = Some d"
    and ne: "tracker.events t \<noteq> []"
    and pre: "tracker.events t = map data (rows_of eng (tracker.sender_id t)) @ es"
    and cnt: "(\<forall>r\<in>set (rows_of eng (tracker.sender_id t)).
                 SQLEvent.type_name r \<noteq> SessionStarted_type_name)
              \<or> truthy (retrieve_events_from_previous_conversation_sessions b)"
    and st: "\<forall>e\<in>set es. storable e"
    and inc: "stamps_increasing (rows_of eng (tracker.sender_id t)) w (length es)"
  shows "\<exists>s' w' tr. save (SQLTrackerStore b eng) t w = (None, s', w')
           \<and> retrieve_full_tracker s' (tracker.sender_id t) w' = (Inr (Some tr), w')
           \<and> tracker.events tr = tracker.events t"
proof -
  let ?sid = "tracker.sender_id t"
  let ?R = "filter (\<lambda>r. SQLEvent.sender_id r = ?sid) (table eng)"
  let ?f = "retrieve_events_from_previous_conversation_sessions b"
  from inc have so: "sorted_wrt (<) (map timestamp ?R @ map (clock w) [ticks w..<ticks w + length es])"
    by (simp add: stamps_increasing_def rows_of_def)
  then have soR: "sorted_wrt (<) (map timestamp ?R)"
    by (simp add: sorted_wrt_append)
  from cnt have q: "event_query eng ?sid ?f = ?R"
  proof
    assume "\<forall>r\<in>set (rows_of eng ?sid). SQLEvent.type_name r \<noteq> SessionStarted_type_name"
    then have "\<forall>r\<in>set ?R. SQLEvent.type_name r \<noteq> SessionStarted_type_name"
      by (simp add: rows_of_def)
    with ob soR show ?thesis by (rule event_query_no_session)
  next
    assume "truthy ?f"
    with ob soR show ?thesis by (rule event_query_all)
  qed
  have ad: "additional_events b eng t = es"
    using pre by (simp add: additional_events_def q islice_def rows_of_def)
  with st have "\<forall>e\<in>set (additional_events b eng t). storable e" by simp
  from SQLTrackerStore_save_rows [OF this, of w] ad
  obtain new tr where sv: "save (SQLTrackerStore b eng) t w
            = (None, SQLTrackerStore b (eng\<lparr>table := table eng @ new\<rparr>),
               w\<lparr>ticks := ticks w + length es, trace := tr\<rparr>)"
      and dat: "map data new = es"
      and ts: "map timestamp new = map (clock w) [ticks w..<ticks w + length es]"
      and sn: "map SQLEvent.sender_id new = replicate (length es) ?sid"
    by auto
  let ?eng = "eng\<lparr>table := table eng @ new\<rparr>"
  have rows: "filter (\<lambda>r. SQLEvent.sender_id r = ?sid) (table ?eng) = ?R @ new"
    using sn by (simp add: filter_sender_replicate)
  have ob': "order_by_timestamp (order_by ?eng)" using ob by simp
  have so': "sorted_wrt (<) (map timestamp (filter (\<lambda>r. SQLEvent.sender_id r = ?sid) (table ?eng)))"
    unfolding rows using so ts by simp
  from ob' so' have "event_query ?eng ?sid (Some True)
      = filter (\<lambda>r. SQLEvent.sender_id r = ?sid) (table ?eng)"
    by (rule event_query_all) simp
  with rows dat pre dm ne have "SQL_retrieve b ?eng ?sid True
      = Some (from_dict ?sid (tracker.events t) (domain.slots d))"
    by (simp add: SQL_retrieve_def rows_of_def)
  with sv show ?thesis
    by (simp add: from_dict_eq)
qed

lemma SQL_save_step:
  assumes ob: "order_by_timestamp (order_by eng)"
    and dm: "domain b = Some d"
    and R: "filter (\<lambda>r. SQLEvent.sender_id r = tracker.sender_id t) (table eng) = R"
    and pre: "tracker.events t = map data R @ es"
    and ne: "tracker.events t \<noteq> []"
    and so: "sorted_wrt (<) (map timestamp R @ map (clock w) [ticks w..<ticks w + length es])"
    and nsR: "\<forall>r\<in>set R. SQLEvent.type_name r \<noteq> SessionStarted_type_name"
    and nsE: "\<forall>e\<in>set es. event.type_name e \<noteq> SessionStarted_type_name"
    and st: "\<forall>e\<in>set es. storable e"
  shows "\<exists>new tr. save (SQLTrackerStore b eng) t w
            = (None, SQLTrackerStore b (eng\<lparr>table := table eng @ new\<rparr>),
               w\<lparr>ticks := ticks w + length es, trace := tr\<rparr>)
          \<and> filter (\<lambda>r. SQLEvent.sender_id r = tracker.sender_id t) (table eng @ new) = R @ new
          \<and> map data new = es
          \<and> map timestamp new = map (clock w) [ticks w..<ticks w + length es]
          \<and> (\<forall>r\<in>set new. SQLEvent.type_name r \<noteq> SessionStarted_type_name)
          \<and> map action_name new = map (\<lambda>e. dict_get (as_dict e) ''name'' JNull) es
          \<and> (\<forall>w'. retrieve (SQLTrackerStore b (eng\<lparr>table := table eng @ new\<rparr>))
                     (tracker.sender_id t) w'
              = (Inr (Some (from_dict (tracker.sender_id t) (tracker.events t) (domain.slots d))), w'))"
proof -
  let ?sid = "tracker.sender_id t"
  from so have soR: "sorted_wrt (<) (map timestamp R)"
    by (simp add: sorted_wrt_append)
  have q: "event_query eng ?sid f = R" for f
    using event_query_no_session [of eng ?sid f] ob soR nsR R by simp
  have ad: "additional_events b eng t = es"
    using pre by (simp add: additional_events_def q islice_def)
  with st have "\<forall>e\<in>set (additional_events b eng t). storable e" by simp
  from SQLTrackerStore_save_rows [OF this, of w] ad
  obtain new tr where sv: "save (SQLTrackerStore b eng) t w
            = (None, SQLTrackerStore b (eng\<lparr>table := table eng @ new\<rparr>),
               w\<lparr>ticks := ticks w + length es, trace := tr\<rparr>)"
      and dat: "map data new = es"
      and ts: "map timestamp new = map (clock w) [ticks w..<ticks w + length es]"
      and sn: "map SQLEvent.sender_id new = replicate (length es) ?sid"
      and ty: "map SQLEvent.type_name new = map event.type_name es"
      and an: "map action_name new = map (\<lambda>e. dict_get (as_dict e) ''name'' JNull) es"
    by auto
  let ?eng = "eng\<lparr>table := table eng @ new\<rparr>"
  have rows: "filter (\<lambda>r. SQLEvent.sender_id r = ?sid) (table eng @ new) = R @ new"
    using R sn by (simp add: filter_sender_replicate)
  have nsN: "\<forall>r\<in>set new. SQLEvent.type_name r \<noteq> SessionStarted_type_name"
  proof
    fix r assume "r \<in> set new"
    then have "SQLEvent.type_name r \<in> set (map SQLEvent.type_name new)" by simp
    with ty have "SQLEvent.type_name r \<in> event.type_name ` set es" by simp
    with nsE show "SQLEvent.type_name r \<noteq> SessionStarted_type_name" by auto
  qed
  have rows': "filter (\<lambda>r. SQLEvent.sender_id r = ?sid) (table ?eng) = R @ new"
    using rows by simp
  have so': "sorted_wrt (<) (map timestamp (filter (\<lambda>r. SQLEvent.sender_id r = ?sid) (table ?eng)))"
    unfolding rows' using so ts by simp
  have ns': "\<forall>r\<in>set (filter (\<lambda>r. SQLEvent.sender_id r = ?sid) (table ?eng)).
               SQLEvent.type_name r \<noteq> SessionStarted_type_name"
    unfolding rows' using nsR nsN by auto
  have ob': "order_by_timestamp (order_by ?eng)" using ob by simp
  have "event_query ?eng ?sid f = R @ new" for f
    using event_query_no_session [OF ob' so' ns', of f] rows' by simp
  with dat pre dm ne have "\<forall>w'. retrieve (SQLTrackerStore b ?eng) ?sid w'
      = (Inr (Some (from_dict ?sid (tracker.events t) (domain.slots d))), w')"
    by (simp add: SQL_retrieve_def)
  with sv rows dat ts nsN an show ?thesis by blast
qed

lemma SQL_get_or_create_then_retrieve:
  assumes ob: "order_by_timestamp (order_by eng)"
    and fresh': "rows_of eng sid = []"
    and dm: "domain b = Some d"
    and wh: "within_history mh (Suc (length es))"
    and inc': "stamps_increasing [] w (Suc (length es))"
    and st: "\<forall>e\<in>set es. storable e"
    and ns: "\<forall>e\<in>set es. event.type_name e \<noteq> SessionStarted_type_name"
  shows "\<exists>t s1 w1 s2 w2 tr new.
           get_or_create_tracker (SQLTrackerStore b eng) sid mh True w = (Inr t, s1, w1)
         \<and> tracker.events t = [ActionExecuted ACTION_LISTEN_NAME]
         \<and> save s1 (foldl update t es) w1 = (None, s2, w2)
         \<and> persisted_rows s2 = persisted_rows s1 @ new
         \<and> map data new = es
         \<and> map action_name new = map (\<lambda>e. dict_get (as_dict e) ''name'' JNull) es
         \<and> retrieve s2 sid w2 = (Inr (Some tr), w2)
         \<and> tracker.events tr = ActionExecuted ACTION_LISTEN_NAME # es"
proof -
  let ?listen = "ActionExecuted ACTION_LISTEN_NAME"
  let ?b = "b\<lparr>base.max_event_history := mh\<rparr>"
  define t where "t = update (init_tracker (SQLTrackerStore ?b eng) sid) ?listen"
  from fresh' have fresh: "sid \<notin> SQLEvent.sender_id ` set (table eng)"
    by (simp add: rows_of_fresh)
  from inc' have inc: "sorted_wrt (<) (map (clock w) [ticks w..<ticks w + Suc (length es)])"
    by (simp add: stamps_increasing_def)
  have dm': "domain ?b = Some d" using dm by simp
  from wh have wh1: "within_history mh (Suc 0)"
    by (rule within_history_mono) simp
  have ev: "tracker.events t = [?listen]" and sd: "tracker.sender_id t = sid"
    and mx: "tracker.max_event_history t = mh"
    unfolding t_def using wh1 by (simp_all add: listening_tracker)
  have none: "retrieve (SQLTrackerStore ?b eng) sid w = (Inr None, w)"
    using ob fresh dm by (simp add: SQL_retrieve_def event_query_fresh)
  have R0: "filter (\<lambda>r. SQLEvent.sender_id r = tracker.sender_id t) (table eng) = []"
    using fresh sd by (simp add: filter_sender_fresh)
  have "\<exists>new tr. save (SQLTrackerStore ?b eng) t w
            = (None, SQLTrackerStore ?b (eng\<lparr>table := table eng @ new\<rparr>),
               w\<lparr>ticks := ticks w + length [?listen], trace := tr\<rparr>)
          \<and> filter (\<lambda>r. SQLEvent.sender_id r = tracker.sender_id t) (table eng @ new) = [] @ new
          \<and> map data new = [?listen]
          \<and> map timestamp new = map (clock w) [ticks w..<ticks w + length [?listen]]
          \<and> (\<forall>r\<in>set new. SQLEvent.type_name r \<noteq> SessionStarted_type_name)
          \<and> map action_name new = map (\<lambda>e. dict_get (as_dict e) ''name'' JNull) [?listen]
          \<and> (\<forall>w'. retrieve (SQLTrackerStore ?b (eng\<lparr>table := table eng @ new\<rparr>))
                     (tracker.sender_id t) w'
              = (Inr (Some (from_dict (tracker.sender_id t) (tracker.events t) (domain.slots d))), w'))"
    by (rule SQL_save_step [OF ob dm' R0])
       (simp_all add: ev storable_ActionExecuted type_name_ActionExecuted)
  then obtain new1 tr1 where sv1: "save (SQLTrackerStore ?b eng) t w
            = (None, SQLTrackerStore ?b (eng\<lparr>table := table eng @ new1\<rparr>),
               w\<lparr>ticks := Suc (ticks w), trace := tr1\<rparr>)"
      and R1: "filter (\<lambda>r. SQLEvent.sender_id r = sid) (table eng @ new1) = new1"
      and d1: "map data new1 = [?listen]"
      and ts1: "map timestamp new1 = [clock w (ticks w)]"
      and ns1: "\<forall>r\<in>set new1. SQLEvent.type_name r \<noteq> SessionStarted_type_name"
    using sd by auto
  define eng1 where "eng1 = eng\<lparr>table := table eng @ new1\<rparr>"
  define w1 where "w1 = w\<lparr>ticks := Suc (ticks w), trace := tr1\<rparr>"
  define t' where "t' = foldl update t es"
  have goc: "get_or_create_tracker (SQLTrackerStore b eng) sid mh True w
      = (Inr t, SQLTrackerStore ?b eng1, w1)"
    using none sv1 by (simp add: get_or_create_tracker_def create_tracker_def t_def eng1_def w1_def)
  have "within_history (tracker.max_event_history t) (length (tracker.events t) + length es)"
    using wh ev mx by simp
  then have "t' = t\<lparr>tracker.events := tracker.events t @ es\<rparr>"
    unfolding t'_def by (rule foldl_update_within)
  then have ev': "tracker.events t' = map data new1 @ es" and sd': "tracker.sender_id t' = sid"
    using d1 sd ev by simp_all
  have ob1: "order_by_timestamp (order_by eng1)" using ob by (simp add: eng1_def)
  have R1': "filter (\<lambda>r. SQLEvent.sender_id r = tracker.sender_id t') (table eng1) = new1"
    using R1 sd' by (simp add: eng1_def)
  have "[ticks w..<Suc (ticks w + length es)] = ticks w # [Suc (ticks w)..<Suc (ticks w + length es)]"
    by (rule upt_conv_Cons) simp
  with inc have so: "sorted_wrt (<) (map timestamp new1 @ map (clock w1) [ticks w1..<ticks w1 + length es])"
    by (simp add: ts1 w1_def del: upt_Suc)
  have ne: "tracker.events t' \<noteq> []" using ev' d1 by simp
  from SQL_save_step [OF ob1 dm' R1' ev' ne so ns1 ns st]
  obtain new2 tr2 where sv2: "save (SQLTrackerStore ?b eng1) t' w1
            = (None, SQLTrackerStore ?b (eng1\<lparr>table := table eng1 @ new2\<rparr>),
               w1\<lparr>ticks := ticks w1 + length es, trace := tr2\<rparr>)"
      and d2: "map data new2 = es"
      and a2: "map action_name new2 = map (\<lambda>e. dict_get (as_dict e) ''name'' JNull) es"
      and rt: "retrieve (SQLTrackerStore ?b (eng1\<lparr>table := table eng1 @ new2\<rparr>)) sid
                 (w1\<lparr>ticks := ticks w1 + length es, trace := tr2\<rparr>)
              = (Inr (Some (from_dict sid (tracker.events t') (domain.slots d))),
                 w1\<lparr>ticks := ticks w1 + length es, trace := tr2\<rparr>)"
    using sd' by auto
  have fe: "tracker.events (from_dict sid (tracker.events t') (domain.slots d)) = ?listen # es"
    using ev' d1 by (simp add: from_dict_eq)
  have pr: "persisted_rows (SQLTrackerStore ?b (eng1\<lparr>table := table eng1 @ new2\<rparr>))
      = persisted_rows (SQLTrackerStore ?b eng1) @ new2"
    by simp
  from goc ev sv2 [unfolded t'_def] pr d2 a2 rt fe show ?thesis
    by blast
qed

lemma retrieve_InMemory_returns:
  "m sid \<noteq> Some Malformed \<Longrightarrow> \<exists>r w'. retrieve (InMemoryTrackerStore b m) sid w = (Inr r, w')"
  by (cases "m sid"; cases "the (m sid)")
     (simp_all add: deserialise_tracker_def deserialize_dialogue_from_pickle_def)

lemma stream_events_InMemory:
  assumes "event_broker b = Some bk" and "m (tracker.sender_id t) \<noteq> Some Malformed"
  shows "\<exists>w'. stream_events (InMemoryTrackerStore b m) t w = (None, w')"
proof -
  from retrieve_InMemory_returns [where m = m and sid = "tracker.sender_id t" and b = b and w = w]
    assms(2) obtain r w' where
    "retrieve (InMemoryTrackerStore b m) (tracker.sender_id t) w = (Inr r, w')" by blast
  with assms(1) show ?thesis
    by (simp add: stream_events_def number_of_existing_events_def publish_all_Some)
qed

lemma InMemoryTrackerStore_save_returns:
  assumes "m (tracker.sender_id t) \<noteq> Some Malformed"
  shows "\<exists>w'. save (InMemoryTrackerStore b m) t w
           = (None, InMemoryTrackerStore b (m(tracker.sender_id t \<mapsto> serialise_tracker t)), w')"
proof (cases "event_broker b")
  case None
  then show ?thesis by (simp add: InMemoryTrackerStore_save_def)
next
  case (Some bk)
  from stream_events_InMemory [where m = m and t = t and b = b and w = w and bk = bk]
    this assms obtain w' where
    "stream_events (InMemoryTrackerStore b m) t w = (None, w')" by blast
  with Some show ?thesis by (simp add: InMemoryTrackerStore_save_def)
qed

lemma InMemory_round_trip:
  assumes "m (tracker.sender_id t) \<noteq> Some Malformed"
  shows "\<exists>s' w' tr. save (InMemoryTrackerStore b m) t w = (None, s', w')
           \<and> retrieve_full_tracker s' (tracker.sender_id t) w' = (Inr (Some tr), w')
           \<and> tracker.events tr = deque_extend (base.max_event_history b) [] (tracker.events t)"
proof -
  from InMemoryTrackerStore_save_returns [where m = m and t = t and b = b and w = w]
    assms obtain w' where
    "save (InMemoryTrackerStore b m) t w
       = (None, InMemoryTrackerStore b (m(tracker.sender_id t \<mapsto> serialise_tracker t)), w')"
    by blast
  then show ?thesis
    by (simp add: serialise_tracker_def deserialise_tracker_def recreate_from_dialogue_def
          as_dialogue_def init_tracker_def DialogueStateTracker_def)
qed

lemma InMemory_get_or_create_then_retrieve:
  assumes absent: "m sid = None"
    and wh: "within_history mh (Suc (length es))"
  shows "\<exists>t s1 w1 s2 w2 tr.
           get_or_create_tracker (InMemoryTrackerStore b m) sid mh True w = (Inr t, s1, w1)
         \<and> tracker.events t = [ActionExecuted ACTION_LISTEN_NAME]
         \<and> save s1 (foldl update t es) w1 = (None, s2, w2)
         \<and> retrieve s2 sid w2 = (Inr (Some tr), w2)
         \<and> tracker.events tr = ActionExecuted ACTION_LISTEN_NAME # es"
proof -
  let ?listen = "ActionExecuted ACTION_LISTEN_NAME"
  let ?b = "b\<lparr>base.max_event_history := mh\<rparr>"
  define t where "t = update (init_tracker (InMemoryTrackerStore ?b m) sid) ?listen"
  from wh have wh1: "within_history mh (Suc 0)"
    by (rule within_history_mono) simp
  have ev: "tracker.events t = [?listen]" and sd: "tracker.sender_id t = sid"
    and mx: "tracker.max_event_history t = mh"
    unfolding t_def using wh1 by (simp_all add: listening_tracker)
  have none: "retrieve (InMemoryTrackerStore ?b m) sid w = (Inr None, w)"
    using absent by simp
  from InMemoryTrackerStore_save_returns [where m = m and t = t and b = ?b and w = w]
    absent sd
  obtain w1 where sv1: "save (InMemoryTrackerStore ?b m) t w
           = (None, InMemoryTrackerStore ?b (m(sid \<mapsto> serialise_tracker t)), w1)"
    by auto
  define m1 where "m1 = m(sid \<mapsto> serialise_tracker t)"
  define t' where "t' = foldl update t es"
  have goc: "get_or_create_tracker (InMemoryTrackerStore b m) sid mh True w
      = (Inr t, InMemoryTrackerStore ?b m1, w1)"
    using none sv1
    by (simp add: get_or_create_tracker_def create_tracker_def t_def m1_def Let_def)
  have "within_history (tracker.max_event_history t) (length (tracker.events t) + length es)"
    using wh ev mx by simp
  then have "t' = t\<lparr>tracker.events := tracker.events t @ es\<rparr>"
    unfolding t'_def by (rule foldl_update_within)
  then have ev': "tracker.events t' = ?listen # es" and sd': "tracker.sender_id t' = sid"
    using sd ev by simp_all
  have "m1 (tracker.sender_id t') \<noteq> Some Malformed"
    using sd' by (simp add: m1_def serialise_tracker_def)
  from InMemoryTrackerStore_save_returns [where m = m1 and t = t' and b = ?b and w = w1] this sd'
  obtain w2 where sv2: "save (InMemoryTrackerStore ?b m1) t' w1
           = (None, InMemoryTrackerStore ?b (m1(sid \<mapsto> serialise_tracker t')), w2)"
    by auto
  have "deque_extend mh [] (?listen # es) = ?listen # es"
    using wh deque_extend_within [of mh "[]" "?listen # es"] by simp
  then have rt: "retrieve (InMemoryTrackerStore ?b (m1(sid \<mapsto> serialise_tracker t'))) sid w2
      = (Inr (Some ((init_tracker (InMemoryTrackerStore ?b m1) sid)
                      \<lparr>tracker.events := ?listen # es\<rparr>)), w2)"
    using ev' by (simp add: serialise_tracker_def deserialise_tracker_def
          recreate_from_dialogue_def as_dialogue_def init_tracker_def DialogueStateTracker_def)
  have fe: "tracker.events ((init_tracker (InMemoryTrackerStore ?b m1) sid)
                      \<lparr>tracker.events := ?listen # es\<rparr>) = ?listen # es"
    by simp
  from goc ev sv2 [unfolded t'_def] rt [unfolded t'_def] fe show ?thesis
    by blast
qed

lemma get_or_create_tracker_creates:
  assumes "retrieve (map_base (\<lambda>b. b\<lparr>base.max_event_history := mh\<rparr>) s) sid w = (Inr None, w1)"
    and "get_or_create_tracker s sid mh aal w = (Inr t, s', w')"
  shows "save (map_base (\<lambda>b. b\<lparr>base.max_event_history := mh\<rparr>) s) t w1 = (None, s', w')
         \<and> tracker.sender_id t = sid
         \<and> tracker.events t = (if aal then deque_extend mh [] [ActionExecuted ACTION_LISTEN_NAME] else [])"
  using assms
  by (auto simp: get_or_create_tracker_def create_tracker_def Let_def init_tracker_def
        DialogueStateTracker_def update_def get_base_map_base
      split: prod.splits option.splits if_splits)

lemmas ex_defs = ex_engine_def ex_base_def ex_tracker_def ex_world_def ex_log_def
   SQLTrackerStore_save_def stream_events_def number_of_existing_events_def SQL_retrieve_def event_query_def session_start_sub_query_def
   Let_def TrackerStore_init_def DialogueStateTracker_def islice_def additional_events_def intent_of_def dict_get_def
   ActionExecuted_def SessionStarted_def SessionStarted_type_name_def ACTION_LISTEN_NAME_def datetime_now_def emit_def from_dict_eq INTENT_NAME_KEY_def
   body_def dict_update_def


section \<open>Saving a tracker and retrieving it in full\<close>

text \<open>
  C1, as the code has it. Let an SQL store have a domain, and let a tracker's log be
  non-empty and extend the events of the rows already stored for its sender id (none, on
  a first save) by storable events. Let none of the stored rows be a session start, or
  let the store count the events of all sessions. If the timestamps of the stored rows
  and then of the rows the save appends are strictly increasing, the save returns and
  \<open>retrieve_full_tracker\<close> then replays exactly the tracker's events in their order.
  A tracker saved to an in-memory store (whose entry for the sender id, if any, is
  decodable) is retrieved with its events, cut to the last \<open>max_event_history\<close> of
  them when the store has a history limit, all of them when it has none.
\<close>

theorem save_then_retrieve_full_tracker:
  "(order_by_timestamp (order_by eng)
      \<and> domain b = Some d
      \<and> tracker.events t \<noteq> []
      \<and> tracker.events t = map data (rows_of eng (tracker.sender_id t)) @ es
      \<and> ((\<forall>r\<in>set (rows_of eng (tracker.sender_id t)).
              SQLEvent.type_name r \<noteq> SessionStarted_type_name)
          \<or> truthy (retrieve_events_from_previous_conversation_sessions b))
      \<and> (\<forall>e\<in>set es. storable e)
      \<and> stamps_increasing (rows_of eng (tracker.sender_id t)) w (length es)
    \<longrightarrow> (\<exists>s' w' tr. save (SQLTrackerStore b eng) t w = (None, s', w')
           \<and> retrieve_full_tracker s' (tracker.sender_id t) w' = (Inr (Some tr), w')
           \<and> tracker.events tr = tracker.events t))
   \<and> (m (tracker.sender_id t) \<noteq> Some Malformed
    \<longrightarrow> (\<exists>s' w' tr. save (InMemoryTrackerStore b m) t w = (None, s', w')
           \<and> retrieve_full_tracker s' (tracker.sender_id t) w' = (Inr (Some tr), w')
           \<and> tracker.events tr
               = deque_extend (base.max_event_history b) [] (tracker.events t)))
   \<and> deque_extend None [] (tracker.events t) = tracker.events t"
proof (intro conjI impI)
  assume "order_by_timestamp (order_by eng)
      \<and> domain b = Some d
      \<and> tracker.events t \<noteq> []
      \<and> tracker.events t = map data (rows_of eng (tracker.sender_id t)) @ es
      \<and> ((\<forall>r\<in>set (rows_of eng (tracker.sender_id t)).
              SQLEvent.type_name r \<noteq> SessionStarted_type_name)
          \<or> truthy (retrieve_events_from_previous_conversation_sessions b))
      \<and> (\<forall>e\<in>set es. storable e)
      \<and> stamps_increasing (rows_of eng (tracker.sender_id t)) w (length es)"
  then show "\<exists>s' w' tr. save (SQLTrackerStore b eng) t w = (None, s', w')
           \<and> retrieve_full_tracker s' (tracker.sender_id t) w' = (Inr (Some tr), w')
           \<and> tracker.events tr = tracker.events t"
    using SQL_round_trip [of eng b d t es w] by blast
next
  assume "m (tracker.sender_id t) \<noteq> Some Malformed"
  then show "\<exists>s' w' tr. save (InMemoryTrackerStore b m) t w = (None, s', w')
           \<and> retrieve_full_tracker s' (tracker.sender_id t) w' = (Inr (Some tr), w')
           \<and> tracker.events tr
               = deque_extend (base.max_event_history b) [] (tracker.events t)"
    using InMemory_round_trip [where m = m and t = t and b = b and w = w] by blast
next
  show "deque_extend None [] (tracker.events t) = tracker.events t"
    by (simp add: deque_extend_def)
qed

theorem save_then_retrieve_full_tracker_witness:
  "(\<exists>s' w' tr. save (SQLTrackerStore ex_base ex_engine) (ex_tracker ex_log) ex_world
                    = (None, s', w')
           \<and> retrieve_full_tracker s' ''u1'' w' = (Inr (Some tr), w')
           \<and> tracker.events tr = ex_log)
   \<and> (\<exists>s' w' tr. save (InMemoryTrackerStore ex_base Map.empty) (ex_tracker ex_log) ex_world
                    = (None, s', w')
           \<and> retrieve_full_tracker s' ''u1'' w' = (Inr (Some tr), w')
           \<and> tracker.events tr = ex_log)"
proof -
  have 0: "rows_of ex_engine (tracker.sender_id (ex_tracker ex_log)) = []"
    by (simp add: rows_of_def ex_engine_def)
  have 1: "order_by_timestamp (order_by ex_engine)"
    by (simp add: ex_engine_def order_by_stable)
  have 2: "domain ex_base = Some (Domain [])"
    by (simp add: ex_base_def TrackerStore_init_def)
  have 3: "tracker.events (ex_tracker ex_log) \<noteq> []"
    by (simp add: ex_tracker_def ex_log_def)
  have 4: "tracker.events (ex_tracker ex_log)
             = map data (rows_of ex_engine (tracker.sender_id (ex_tracker ex_log))) @ ex_log"
    unfolding 0 by (simp add: ex_tracker_def)
  have 5: "\<forall>r\<in>set (rows_of ex_engine (tracker.sender_id (ex_tracker ex_log))).
              SQLEvent.type_name r \<noteq> SessionStarted_type_name"
    unfolding 0 by simp
  have 6: "\<forall>e\<in>set ex_log. storable e"
    by (simp add: ex_log_def storable_def intent_of_def dict_get_def
          ActionExecuted_def SessionStarted_def)
  have 7: "stamps_increasing (rows_of ex_engine (tracker.sender_id (ex_tracker ex_log)))
             ex_world (length ex_log)"
    unfolding 0 by (simp add: ex_world_def ex_log_def stamps_increasing_def upt_conv_Cons)
  have 8: "Map.empty (tracker.sender_id (ex_tracker ex_log)) \<noteq> Some Malformed"
    by simp
  have 9: "base.max_event_history ex_base = None"
    by (simp add: ex_base_def TrackerStore_init_def)
  have 10: "tracker.events (ex_tracker ex_log) = ex_log"
    "tracker.sender_id (ex_tracker ex_log) = ''u1''"
    by (simp_all add: ex_tracker_def DialogueStateTracker_def)
  from save_then_retrieve_full_tracker
         [where eng = ex_engine and t = "ex_tracker ex_log" and b = ex_base
            and d = "Domain []" and w = ex_world and m = Map.empty and es = ex_log]
       1 2 3 4 5 6 7 8
  show ?thesis unfolding 9 10 by (simp add: deque_extend_def)
qed

text \<open>
  C1 as stated fails when two appended events receive equal timestamps: the query orders
  by timestamp alone, and an engine that returns rows of equal timestamp newest first
  gives the two events back in the opposite order.
\<close>

theorem round_trip_equal_timestamps_counterexample:
  "order_by_timestamp (order_by ex_engine_newest_first)
   \<and> fst (retrieve_full_tracker
         (fst (snd (save (SQLTrackerStore ex_base ex_engine_newest_first)
                      (ex_tracker [ActionExecuted ''greet'', ActionExecuted ACTION_LISTEN_NAME])
                      ex_frozen_world)))
         ''u1'' ex_frozen_world)
     = Inr (Some (ex_tracker [ActionExecuted ACTION_LISTEN_NAME, ActionExecuted ''greet'']))"
  by (simp add: order_by_newest_first ex_engine_newest_first_def ex_base_def ex_tracker_def ex_frozen_world_def
   SQLTrackerStore_save_def stream_events_def number_of_existing_events_def SQL_retrieve_def event_query_def session_start_sub_query_def
   Let_def TrackerStore_init_def DialogueStateTracker_def islice_def additional_events_def intent_of_def dict_get_def
   ActionExecuted_def datetime_now_def emit_def from_dict_eq INTENT_NAME_KEY_def)

section \<open>Session windowing\<close>

text \<open>
  C2, as the code has it. Let the rows of a conversation be those of a log
  \<open>[A, SessionStarted, B, C]\<close> with strictly increasing timestamps, in an SQL store with
  a domain and without the deprecated flag. Then \<open>retrieve\<close> returns a tracker with the
  events \<open>[SessionStarted, B, C]\<close>, the session start included (the query keeps the rows
  whose timestamp is at least that of the latest session start), and
  \<open>retrieve_full_tracker\<close> returns one with \<open>[A, SessionStarted, B, C]\<close>.
\<close>

theorem session_windowing:
  "order_by_timestamp (order_by eng)
   \<and> rows_of eng sid = [rA, rS, rB, rC]
   \<and> SQLEvent.type_name rS = SessionStarted_type_name
   \<and> SQLEvent.type_name rA \<noteq> SessionStarted_type_name
   \<and> SQLEvent.type_name rB \<noteq> SessionStarted_type_name
   \<and> SQLEvent.type_name rC \<noteq> SessionStarted_type_name
   \<and> timestamp rA < timestamp rS \<and> timestamp rS < timestamp rB \<and> timestamp rB < timestamp rC
   \<and> domain b = Some d
   \<and> \<not> truthy (retrieve_events_from_previous_conversation_sessions b)
   \<longrightarrow>
     retrieve (SQLTrackerStore b eng) sid w
       = (Inr (Some (from_dict sid [data rS, data rB, data rC] (domain.slots d))), w)
     \<and> tracker.events (from_dict sid [data rS, data rB, data rC] (domain.slots d))
         = [data rS, data rB, data rC]
     \<and> retrieve_full_tracker (SQLTrackerStore b eng) sid w
       = (Inr (Some (from_dict sid [data rA, data rS, data rB, data rC] (domain.slots d))), w)
     \<and> tracker.events (from_dict sid [data rA, data rS, data rB, data rC] (domain.slots d))
         = [data rA, data rS, data rB, data rC]"
proof (intro impI, elim conjE)
  assume ob: "order_by_timestamp (order_by eng)"
    and rows': "rows_of eng sid = [rA, rS, rB, rC]"
    and ty: "SQLEvent.type_name rS = SessionStarted_type_name"
      "SQLEvent.type_name rA \<noteq> SessionStarted_type_name"
      "SQLEvent.type_name rB \<noteq> SessionStarted_type_name"
      "SQLEvent.type_name rC \<noteq> SessionStarted_type_name"
    and ts: "timestamp rA < timestamp rS" "timestamp rS < timestamp rB"
      "timestamp rB < timestamp rC"
    and dm: "domain b = Some d"
    and flag: "\<not> truthy (retrieve_events_from_previous_conversation_sessions b)"
  from rows' have rows:
    "filter (\<lambda>r. SQLEvent.sender_id r = sid) (table eng) = [rA, rS, rB, rC]"
    by (simp add: rows_of_def)
  have start: "session_start_sub_query eng sid = Some (timestamp rS)"
    using rows ty by (simp add: session_start_sub_query_def filter_sender_type)
  have "order_by eng [rS, rB, rC] = [rS, rB, rC]"
    using ob ts by (intro order_by_strictly_sorted) auto
  with start rows ts have win: "event_query eng sid (Some False) = [rS, rB, rC]"
    by (simp add: event_query_def)
  have "order_by eng [rA, rS, rB, rC] = [rA, rS, rB, rC]"
    using ob ts by (intro order_by_strictly_sorted) auto
  with rows have full: "event_query eng sid (Some True) = [rA, rS, rB, rC]"
    by (simp add: event_query_def)
  from win full dm flag
  show "retrieve (SQLTrackerStore b eng) sid w
       = (Inr (Some (from_dict sid [data rS, data rB, data rC] (domain.slots d))), w)
     \<and> tracker.events (from_dict sid [data rS, data rB, data rC] (domain.slots d))
         = [data rS, data rB, data rC]
     \<and> retrieve_full_tracker (SQLTrackerStore b eng) sid w
       = (Inr (Some (from_dict sid [data rA, data rS, data rB, data rC] (domain.slots d))), w)
     \<and> tracker.events (from_dict sid [data rA, data rS, data rB, data rC] (domain.slots d))
         = [data rA, data rS, data rB, data rC]"
    by (simp add: SQL_retrieve_def from_dict_eq)
qed

theorem session_windowing_witness:
  "fst (snd (save (SQLTrackerStore ex_base ex_engine) (ex_tracker ex_log) ex_world))
     = SQLTrackerStore ex_base ex_engine_log
   \<and> retrieve (SQLTrackerStore ex_base ex_engine_log) ''u1'' ex_world
     = (Inr (Some (from_dict ''u1''
                     [SessionStarted, ActionExecuted ''utter_hello'',
                      ActionExecuted ACTION_LISTEN_NAME] [])), ex_world)
   \<and> retrieve_full_tracker (SQLTrackerStore ex_base ex_engine_log) ''u1'' ex_world
     = (Inr (Some (from_dict ''u1'' ex_log [])), ex_world)"
proof -
  have 1: "order_by_timestamp (order_by ex_engine_log)"
    by (simp add: ex_engine_log_def order_by_stable)
  have 2: "rows_of ex_engine_log ''u1''
      = [ex_row 1 0 (ActionExecuted ''greet''), ex_row 2 1 SessionStarted,
         ex_row 3 2 (ActionExecuted ''utter_hello''),
         ex_row 4 3 (ActionExecuted ACTION_LISTEN_NAME)]"
    by (simp add: ex_engine_log_def ex_row_def rows_of_def)
  have 3: "SQLEvent.type_name (ex_row 2 1 SessionStarted) = SessionStarted_type_name"
    "SQLEvent.type_name (ex_row 1 0 (ActionExecuted ''greet'')) \<noteq> SessionStarted_type_name"
    "SQLEvent.type_name (ex_row 3 2 (ActionExecuted ''utter_hello'')) \<noteq> SessionStarted_type_name"
    "SQLEvent.type_name (ex_row 4 3 (ActionExecuted ACTION_LISTEN_NAME)) \<noteq> SessionStarted_type_name"
    by (simp_all add: ex_row_def SessionStarted_def ActionExecuted_def SessionStarted_type_name_def)
  have 4: "timestamp (ex_row 1 0 (ActionExecuted ''greet'')) < timestamp (ex_row 2 1 SessionStarted)"
    "timestamp (ex_row 2 1 SessionStarted) < timestamp (ex_row 3 2 (ActionExecuted ''utter_hello''))"
    "timestamp (ex_row 3 2 (ActionExecuted ''utter_hello''))
       < timestamp (ex_row 4 3 (ActionExecuted ACTION_LISTEN_NAME))"
    by (simp_all add: ex_row_def)
  have 5: "domain ex_base = Some (Domain [])"
    "\<not> truthy (retrieve_events_from_previous_conversation_sessions ex_base)"
    by (simp_all add: ex_base_def TrackerStore_init_def)
  have 6: "fst (snd (save (SQLTrackerStore ex_base ex_engine) (ex_tracker ex_log) ex_world))
     = SQLTrackerStore ex_base ex_engine_log"
    by (simp add: ex_defs ex_engine_log_def ex_row_def)
  have 7: "data (ex_row i ts e) = e" for i ts e
    by (simp add: ex_row_def)
  from session_windowing
         [where eng = ex_engine_log and sid = "''u1''" and b = ex_base and d = "Domain []"
            and w = ex_world
            and rA = "ex_row 1 0 (ActionExecuted ''greet'')" and rS = "ex_row 2 1 SessionStarted"
            and rB = "ex_row 3 2 (ActionExecuted ''utter_hello'')"
            and rC = "ex_row 4 3 (ActionExecuted ACTION_LISTEN_NAME)"]
       1 2 3 4 5 6
  show ?thesis by (simp add: 7 ex_log_def)
qed

text \<open>
  C2 as stated fails: after the log \<open>[greet, SessionStarted, utter_hello, action_listen]\<close>
  is saved, \<open>retrieve\<close> replays three events, the first of them the session start.
\<close>

theorem session_windowing_counterexample:
  "fst (retrieve (fst (snd (save (SQLTrackerStore ex_base ex_engine) (ex_tracker ex_log) ex_world)))
          ''u1'' ex_world)
     = Inr (Some (ex_tracker [SessionStarted, ActionExecuted ''utter_hello'',
                              ActionExecuted ACTION_LISTEN_NAME]))"
  by (simp add: ex_defs)

section \<open>Saving the same tracker twice\<close>

text \<open>
  C3, at an input where the code inserts a row on the second save. A tracker whose log
  \<open>[greet, SessionStarted, utter_hello, action_listen]\<close> spans two sessions is saved to
  an empty SQL store: four rows. Saved again unchanged, the store counts the three rows
  of the latest session, takes the tracker's events from the fourth on as not yet stored,
  and inserts \<open>action_listen\<close> a second time: five rows.
\<close>

theorem second_save_inserts_duplicate_row:
  "map data (persisted_rows (fst (snd (save (SQLTrackerStore ex_base ex_engine)
                                             (ex_tracker ex_log) ex_world))))
     = ex_log
   \<and> map data (persisted_rows
        (fst (snd (save (fst (snd (save (SQLTrackerStore ex_base ex_engine)
                                        (ex_tracker ex_log) ex_world)))
                        (ex_tracker ex_log)
                        (snd (snd (save (SQLTrackerStore ex_base ex_engine)
                                        (ex_tracker ex_log) ex_world)))))))
     = ex_log @ [ActionExecuted ACTION_LISTEN_NAME]"
  by (simp add: ex_defs)

text \<open>
  C4, at the same input. The second save of the unchanged tracker publishes the event
  \<open>action_listen\<close> to the broker again: the offset into the tracker's events is the
  length of the latest session, three, not the number of events already streamed, four.
\<close>

theorem second_save_republishes_event:
  "trace (snd (snd (save (SQLTrackerStore ex_base ex_engine) (ex_tracker ex_log) ex_world)))
     = map (\<lambda>e. Published ''broker'' (body ''u1'' e)) ex_log
   \<and> trace (snd (snd (save (fst (snd (save (SQLTrackerStore ex_base ex_engine)
                                        (ex_tracker ex_log) ex_world)))
                        (ex_tracker ex_log)
                        (snd (snd (save (SQLTrackerStore ex_base ex_engine)
                                        (ex_tracker ex_log) ex_world))))))
     = map (\<lambda>e. Published ''broker'' (body ''u1'' e)) ex_log
       @ [Published ''broker'' (body ''u1'' (ActionExecuted ACTION_LISTEN_NAME))]"
  by (simp add: ex_defs)

section \<open>Retrieving a conversation that is not there\<close>

text \<open>
  C5, as the code has it. \<open>retrieve\<close> on a conversation id with nothing stored returns
  \<open>None\<close> and raises nothing, in the in-memory store and in the SQL store; the fail-safe
  store returns \<open>None\<close> when its primary returns \<open>None\<close> or raises. With no domain the SQL
  store returns \<open>None\<close> whatever rows there are. The in-memory store does not look at the
  domain: it returns the tracker of the stored log, built without slots when the domain
  is unset.
\<close>

theorem retrieve_absent:
  "(m sid = None \<longrightarrow> retrieve (InMemoryTrackerStore b m) sid w = (Inr None, w))
   \<and> (order_by_timestamp (order_by eng) \<and> rows_of eng sid = []
        \<longrightarrow> retrieve (SQLTrackerStore b eng) sid w = (Inr None, w))
   \<and> (domain b = None \<longrightarrow> retrieve (SQLTrackerStore b eng') sid' w = (Inr None, w))
   \<and> (fst (retrieve p sid w) = Inr None \<or> fst (retrieve p sid w) = Inl e
        \<longrightarrow> fst (retrieve (FailSafeTrackerStore b p f cb) sid w) = Inr None)
   \<and> (m' sid = Some (Text dl)
        \<longrightarrow> retrieve (InMemoryTrackerStore b m') sid w
              = (Inr (Some (recreate_from_dialogue
                              (DialogueStateTracker sid (map_option domain.slots (domain b))
                                 (base.max_event_history b)) dl)), w))"
proof -
  have "order_by_timestamp (order_by eng) \<and> rows_of eng sid = []
        \<longrightarrow> retrieve (SQLTrackerStore b eng) sid w = (Inr None, w)"
    by (simp add: SQL_retrieve_def event_query_fresh rows_of_fresh split: option.splits)
  moreover have "fst (retrieve p sid w) = Inr None \<or> fst (retrieve p sid w) = Inl e
        \<longrightarrow> fst (retrieve (FailSafeTrackerStore b p f cb) sid w) = Inr None"
    by (cases "retrieve p sid w") (auto split: sum.splits)
  ultimately show ?thesis
    by (simp add: SQL_retrieve_def deserialise_tracker_def init_tracker_def split: option.splits)
qed

theorem retrieve_absent_witness:
  "retrieve (InMemoryTrackerStore (TrackerStore_init None None) Map.empty) ''u1'' ex_world
     = (Inr None, ex_world)
   \<and> retrieve (SQLTrackerStore (TrackerStore_init None None) ex_engine) ''u1'' ex_world
     = (Inr None, ex_world)
   \<and> retrieve (SQLTrackerStore (TrackerStore_init None None) ex_engine_log) ''u1'' ex_world
     = (Inr None, ex_world)
   \<and> fst (retrieve (FailSafeTrackerStore (TrackerStore_init None None)
                      (TrackerStore (TrackerStore_init None None)) None None) ''u1'' ex_world)
     = Inr None
   \<and> retrieve (InMemoryTrackerStore (TrackerStore_init None None)
                 [''u1'' \<mapsto> serialise_tracker (ex_tracker ex_log)]) ''u1'' ex_world
     = (Inr (Some ((DialogueStateTracker ''u1'' None None)\<lparr>tracker.events := ex_log\<rparr>)), ex_world)"
proof -
  have 1: "order_by_timestamp (order_by ex_engine)"
    by (simp add: ex_engine_def order_by_stable)
  have 2: "rows_of ex_engine ''u1'' = []"
    by (simp add: ex_engine_def rows_of_def)
  have 3: "domain (TrackerStore_init None None) = None"
    "base.max_event_history (TrackerStore_init None None) = None"
    by (simp_all add: TrackerStore_init_def)
  have 4: "fst (retrieve (TrackerStore (TrackerStore_init None None)) ''u1'' ex_world)
             = Inl NotImplementedError"
    by simp
  have 5: "[''u1'' \<mapsto> serialise_tracker (ex_tracker ex_log)] ''u1''
      = Some (Text \<lparr>name = ''u1'', events = ex_log\<rparr>)"
    by (simp add: serialise_tracker_def as_dialogue_def ex_tracker_def DialogueStateTracker_def)
  from retrieve_absent
         [where m = Map.empty and sid = "''u1''" and b = "TrackerStore_init None None"
            and w = ex_world and eng = ex_engine and eng' = ex_engine_log and sid' = "''u1''"
            and p = "TrackerStore (TrackerStore_init None None)" and e = NotImplementedError
            and f = None and cb = None
            and m' = "[''u1'' \<mapsto> serialise_tracker (ex_tracker ex_log)]"
            and dl = "\<lparr>name = ''u1'', events = ex_log\<rparr>"]
       1 2 3 4 5
  show ?thesis
    by (simp add: recreate_from_dialogue_def deque_extend_def DialogueStateTracker_def)
qed

text \<open>
  C5 as stated fails for the in-memory store: with the domain unset and a log stored,
  \<open>retrieve\<close> returns the tracker of that log.
\<close>

theorem retrieve_without_domain_counterexample:
  "get_domain (InMemoryTrackerStore (TrackerStore_init None None)
                 [''u1'' \<mapsto> serialise_tracker (ex_tracker ex_log)]) = None
   \<and> retrieve (InMemoryTrackerStore (TrackerStore_init None None)
                 [''u1'' \<mapsto> serialise_tracker (ex_tracker ex_log)]) ''u1'' ex_world
     = (Inr (Some ((DialogueStateTracker ''u1'' None None)\<lparr>tracker.events := ex_log\<rparr>)), ex_world)"
  by (simp add: TrackerStore_init_def serialise_tracker_def as_dialogue_def ex_tracker_def
        DialogueStateTracker_def deserialise_tracker_def init_tracker_def
        recreate_from_dialogue_def deque_extend_def)

section \<open>Getting or creating a tracker\<close>

text \<open>
  C6, as the code has it. \<open>get_or_create_tracker\<close> returns a tracker or raises; there is
  no \<open>None\<close> outcome. When \<open>retrieve\<close> finds nothing and the call returns a tracker, that
  tracker has been saved by \<open>save\<close>, has the sender id asked for, and its log is the one
  listening event (what a history limit of \<open>max_event_history\<close> keeps of it), or is empty
  when \<open>append_action_listen\<close> is false. In an SQL store (with a domain, strictly
  increasing timestamps, storable events) and in an in-memory store, for a conversation
  not stored before and a history limit that is not exceeded: the call returns a tracker
  with exactly the listening event; saving it with events appended adds one row per
  event, with the event's \<^verbatim>\<open>name\<close> as \<open>action_name\<close>; and \<open>retrieve\<close> then replays the
  listening event followed by the appended events. For the SQL store this needs that
  none of the appended events is a session start.
\<close>

theorem get_or_create_tracker_then_retrieve:
  "(retrieve (map_base (\<lambda>b. b\<lparr>base.max_event_history := mh'\<rparr>) s) sid' w0 = (Inr None, w1)
      \<and> get_or_create_tracker s sid' mh' aal w0 = (Inr t, s', w')
    \<longrightarrow> save (map_base (\<lambda>b. b\<lparr>base.max_event_history := mh'\<rparr>) s) t w1 = (None, s', w')
        \<and> tracker.sender_id t = sid'
        \<and> tracker.events t
            = (if aal then deque_extend mh' [] [ActionExecuted ACTION_LISTEN_NAME] else []))
   \<and> (order_by_timestamp (order_by eng)
      \<and> rows_of eng sid = []
      \<and> domain b = Some d
      \<and> within_history mh (Suc (length es))
      \<and> stamps_increasing [] w (Suc (length es))
      \<and> (\<forall>e\<in>set es. storable e)
      \<and> (\<forall>e\<in>set es. event.type_name e \<noteq> SessionStarted_type_name)
    \<longrightarrow> (\<exists>t s1 w1 s2 w2 tr new.
           get_or_create_tracker (SQLTrackerStore b eng) sid mh True w = (Inr t, s1, w1)
         \<and> tracker.events t = [ActionExecuted ACTION_LISTEN_NAME]
         \<and> save s1 (foldl update t es) w1 = (None, s2, w2)
         \<and> persisted_rows s2 = persisted_rows s1 @ new
         \<and> map data new = es
         \<and> map action_name new = map (\<lambda>e. dict_get (as_dict e) ''name'' JNull) es
         \<and> retrieve s2 sid w2 = (Inr (Some tr), w2)
         \<and> tracker.events tr = ActionExecuted ACTION_LISTEN_NAME # es))
   \<and> (m sid = None \<and> within_history mh (Suc (length es))
    \<longrightarrow> (\<exists>t s1 w1 s2 w2 tr.
           get_or_create_tracker (InMemoryTrackerStore b m) sid mh True w = (Inr t, s1, w1)
         \<and> tracker.events t = [ActionExecuted ACTION_LISTEN_NAME]
         \<and> save s1 (foldl update t es) w1 = (None, s2, w2)
         \<and> retrieve s2 sid w2 = (Inr (Some tr), w2)
         \<and> tracker.events tr = ActionExecuted ACTION_LISTEN_NAME # es))"
  using get_or_create_tracker_creates [of mh' s sid' w0 w1 aal t s' w']
    SQL_get_or_create_then_retrieve [of eng sid b d mh es w]
    InMemory_get_or_create_then_retrieve [where m = m and sid = sid and mh = mh and es = es
      and b = b and w = w]
  by blast

theorem get_or_create_tracker_then_retrieve_witness:
  "save (InMemoryTrackerStore (TrackerStore_init None None) Map.empty)
        ((DialogueStateTracker ''u1'' None None)
           \<lparr>tracker.events := [ActionExecuted ACTION_LISTEN_NAME]\<rparr>) ex_world
     = (None,
        InMemoryTrackerStore (TrackerStore_init None None)
          [''u1'' \<mapsto> Text \<lparr>name = ''u1'', events = [ActionExecuted ACTION_LISTEN_NAME]\<rparr>],
        ex_world)
   \<and> (\<exists>t s1 w1 s2 w2 tr new.
           get_or_create_tracker (SQLTrackerStore ex_base ex_engine) ''u1'' None True ex_world
             = (Inr t, s1, w1)
         \<and> tracker.events t = [ActionExecuted ACTION_LISTEN_NAME]
         \<and> save s1 (foldl update t [ActionExecuted ''greet'']) w1 = (None, s2, w2)
         \<and> persisted_rows s2 = persisted_rows s1 @ new
         \<and> map data new = [ActionExecuted ''greet'']
         \<and> map action_name new = [JStr ''greet'']
         \<and> retrieve s2 ''u1'' w2 = (Inr (Some tr), w2)
         \<and> tracker.events tr = [ActionExecuted ACTION_LISTEN_NAME, ActionExecuted ''greet''])
   \<and> (\<exists>t s1 w1 s2 w2 tr.
           get_or_create_tracker (InMemoryTrackerStore ex_base Map.empty) ''u1'' None True ex_world
             = (Inr t, s1, w1)
         \<and> tracker.events t = [ActionExecuted ACTION_LISTEN_NAME]
         \<and> save s1 (foldl update t [ActionExecuted ''greet'']) w1 = (None, s2, w2)
         \<and> retrieve s2 ''u1'' w2 = (Inr (Some tr), w2)
         \<and> tracker.events tr = [ActionExecuted ACTION_LISTEN_NAME, ActionExecuted ''greet''])"
proof -
  let ?s = "InMemoryTrackerStore (TrackerStore_init None None) Map.empty"
  let ?t = "(DialogueStateTracker ''u1'' None None)
              \<lparr>tracker.events := [ActionExecuted ACTION_LISTEN_NAME]\<rparr>"
  let ?s' = "InMemoryTrackerStore (TrackerStore_init None None)
          [''u1'' \<mapsto> Text \<lparr>name = ''u1'', events = [ActionExecuted ACTION_LISTEN_NAME]\<rparr>]"
  have 0: "map_base (\<lambda>b. b\<lparr>base.max_event_history := None\<rparr>) ?s = ?s"
    by (simp add: TrackerStore_init_def)
  have 1: "retrieve ?s ''u1'' ex_world = (Inr None, ex_world)"
    by simp
  have 2: "get_or_create_tracker ?s ''u1'' None True ex_world = (Inr ?t, ?s', ex_world)"
    by (simp add: get_or_create_tracker_def create_tracker_def Let_def TrackerStore_init_def
          InMemoryTrackerStore_save_def init_tracker_def update_def DialogueStateTracker_def
          deque_extend_def serialise_tracker_def as_dialogue_def)
  have 3: "order_by_timestamp (order_by ex_engine)"
    by (simp add: ex_engine_def order_by_stable)
  have 4: "rows_of ex_engine ''u1'' = []"
    by (simp add: ex_engine_def rows_of_def)
  have 5: "domain ex_base = Some (Domain [])"
    by (simp add: ex_base_def TrackerStore_init_def)
  have 6: "within_history None (Suc (length [ActionExecuted ''greet'']))"
    by (simp add: within_history_def)
  have 7: "stamps_increasing [] ex_world (Suc (length [ActionExecuted ''greet'']))"
    by (simp add: ex_world_def stamps_increasing_def upt_conv_Cons)
  have 8: "\<forall>e\<in>set [ActionExecuted ''greet'']. storable e"
    "\<forall>e\<in>set [ActionExecuted ''greet'']. event.type_name e \<noteq> SessionStarted_type_name"
    by (simp_all add: storable_ActionExecuted type_name_ActionExecuted)
  have 9: "Map.empty ''u1'' = None"
    by simp
  have 10: "map (\<lambda>e. dict_get (as_dict e) ''name'' JNull) [ActionExecuted ''greet'']
      = [JStr ''greet'']"
    by (simp add: ActionExecuted_def dict_get_def)
  from get_or_create_tracker_then_retrieve
         [where s = ?s and sid' = "''u1''" and mh' = None and ?w0.0 = ex_world
            and ?w1.0 = ex_world and aal = True and t = ?t and s' = ?s' and w' = ex_world
            and eng = ex_engine and sid = "''u1''" and b = ex_base and d = "Domain []"
            and mh = None and es = "[ActionExecuted ''greet'']" and w = ex_world
            and m = Map.empty]
       1 2 3 4 5 6 7 8 9
  show ?thesis unfolding 0 10 by simp
qed

text \<open>
  C6 as stated fails in the SQL store when a session start is among the appended events:
  \<open>retrieve\<close> replays the latest session only, without the listening event.
\<close>

theorem get_or_create_tracker_session_counterexample:
  "fst ex_created = Inr (ex_tracker [ActionExecuted ACTION_LISTEN_NAME])
   \<and> fst ex_saved = None
   \<and> map data (persisted_rows (fst (snd ex_saved)))
       = [ActionExecuted ACTION_LISTEN_NAME, SessionStarted, ActionExecuted ''greet'']
   \<and> fst (retrieve (fst (snd ex_saved)) ''u1'' (snd (snd ex_saved)))
       = Inr (Some (ex_tracker [SessionStarted, ActionExecuted ''greet'']))"
  by (simp add: ex_created_def ex_saved_def get_or_create_tracker_def create_tracker_def
        init_tracker_def update_def deque_extend_def ex_defs)

section \<open>The fail-safe store\<close>

text \<open>
  C7. An exception here is an \<open>exn\<close>: what \<^verbatim>\<open>except Exception\<close> catches (an exit of the
  process is not one). Whatever the primary store is, when its \<open>retrieve\<close> raises, the
  fail-safe store's \<open>retrieve\<close> returns \<open>None\<close>, and when its \<open>keys\<close> raises, \<open>keys\<close>
  returns the empty collection; in both the error handler runs once, on the world the
  primary left, and nothing is raised. The handler calls the configured callback exactly
  once, and logs the error once when there is none. When the primary's \<open>save\<close> raises,
  the handler runs once and then the tracker is saved to the fallback store: the outcome
  of that save, an exception too, is the outcome of the call. With no fallback given, the
  handler runs once all the same, an in-memory store with the primary's domain and broker
  is made, it holds the tracker, and the call returns; the world it leaves is the one
  the handler left, with the tracker's events published after it when the primary has a
  broker.
\<close>

theorem FailSafeTrackerStore_resilience:
  "on_tracker_store_error (Some c) e w = w\<lparr>trace := trace w @ [Called c e]\<rparr>
   \<and> on_tracker_store_error None e w = w\<lparr>trace := trace w @ [Logged_error e]\<rparr>
   \<and> (retrieve p sid w = (Inl e, w1) \<longrightarrow>
        retrieve (FailSafeTrackerStore b p f cb) sid w
          = (Inr None, on_tracker_store_error cb e w1))
   \<and> (keys p w = (Inl e, w1) \<longrightarrow>
        keys (FailSafeTrackerStore b p f cb) w = (Inr {}, on_tracker_store_error cb e w1))
   \<and> (save p t w = (Some e, p', w1)
        \<and> save fb t (on_tracker_store_error cb e w1) = (r, fb', w2) \<longrightarrow>
        save (FailSafeTrackerStore b p (Some fb) cb) t w
          = (r, FailSafeTrackerStore b p' (Some fb') cb, w2))
   \<and> (save p t w = (Some e, p', w1) \<longrightarrow>
        save (FailSafeTrackerStore b p None cb) t w
          = (None,
             FailSafeTrackerStore b p'
               (Some (InMemoryTrackerStore
                        (TrackerStore_init (get_domain p') (event_broker (get_base p')))
                        [tracker.sender_id t \<mapsto> serialise_tracker t])) cb,
             case event_broker (get_base p') of
               None \<Rightarrow> on_tracker_store_error cb e w1
             | Some bk \<Rightarrow>
                 (on_tracker_store_error cb e w1)
                   \<lparr>trace := trace (on_tracker_store_error cb e w1)
                      @ map (\<lambda>ev. Published bk (body (tracker.sender_id t) ev))
                          (tracker.events t)\<rparr>))
   \<and> (save p t w = (Some e, p', w1) \<longrightarrow>
        trace (snd (snd (save (FailSafeTrackerStore b p None (Some c)) t w)))
          = trace w1 @ [Called c e]
            @ (case event_broker (get_base p') of
                 None \<Rightarrow> []
               | Some bk \<Rightarrow> map (\<lambda>ev. Published bk (body (tracker.sender_id t) ev))
                              (tracker.events t)))"
proof -
  have 1: "save p t w = (Some e, p', w1) \<longrightarrow>
        save (FailSafeTrackerStore b p None cb) t w
          = (None,
             FailSafeTrackerStore b p'
               (Some (InMemoryTrackerStore
                        (TrackerStore_init (get_domain p') (event_broker (get_base p')))
                        [tracker.sender_id t \<mapsto> serialise_tracker t])) cb,
             case event_broker (get_base p') of
               None \<Rightarrow> on_tracker_store_error cb e w1
             | Some bk \<Rightarrow>
                 (on_tracker_store_error cb e w1)
                   \<lparr>trace := trace (on_tracker_store_error cb e w1)
                      @ map (\<lambda>ev. Published bk (body (tracker.sender_id t) ev))
                          (tracker.events t)\<rparr>)" for cb
    by (cases "event_broker (get_base p')")
       (simp_all add: fresh_InMemory_save TrackerStore_init_def)
  have 2: "save p t w = (Some e, p', w1) \<longrightarrow>
        trace (snd (snd (save (FailSafeTrackerStore b p None (Some c)) t w)))
          = trace w1 @ [Called c e]
            @ (case event_broker (get_base p') of
                 None \<Rightarrow> []
               | Some bk \<Rightarrow> map (\<lambda>ev. Published bk (body (tracker.sender_id t) ev))
                              (tracker.events t))"
    using 1 [of "Some c"]
    by (cases "event_broker (get_base p')")
       (auto simp: on_tracker_store_error_def emit_def)
  from 1 [of cb] 2 show ?thesis
    by (simp add: on_tracker_store_error_def emit_def)
qed

theorem FailSafeTrackerStore_resilience_witness:
  "retrieve (FailSafeTrackerStore (TrackerStore_init None None) (TrackerStore (TrackerStore_init None (Some ''broker''))) None (Some ''notify''))
            ''u1'' ex_world
     = (Inr None, ex_world\<lparr>trace := [Called ''notify'' NotImplementedError]\<rparr>)
   \<and> keys (FailSafeTrackerStore (TrackerStore_init None None) (TrackerStore (TrackerStore_init None (Some ''broker''))) None (Some ''notify'')) ex_world
     = (Inr {}, ex_world\<lparr>trace := [Called ''notify'' NotImplementedError]\<rparr>)
   \<and> save (FailSafeTrackerStore (TrackerStore_init None None) (TrackerStore (TrackerStore_init None (Some ''broker''))) (Some (TrackerStore (TrackerStore_init None None))) (Some ''notify''))
          (ex_tracker [ActionExecuted ACTION_LISTEN_NAME]) ex_world
     = (Some NotImplementedError,
        FailSafeTrackerStore (TrackerStore_init None None) (TrackerStore (TrackerStore_init None (Some ''broker''))) (Some (TrackerStore (TrackerStore_init None None))) (Some ''notify''),
        ex_world\<lparr>trace := [Called ''notify'' NotImplementedError]\<rparr>)
   \<and> save (FailSafeTrackerStore (TrackerStore_init None None) (TrackerStore (TrackerStore_init None (Some ''broker''))) None (Some ''notify''))
          (ex_tracker [ActionExecuted ACTION_LISTEN_NAME]) ex_world
     = (None,
        FailSafeTrackerStore (TrackerStore_init None None) (TrackerStore (TrackerStore_init None (Some ''broker'')))
          (Some (InMemoryTrackerStore (TrackerStore_init None (Some ''broker''))
                   [''u1'' \<mapsto> serialise_tracker (ex_tracker [ActionExecuted ACTION_LISTEN_NAME])]))
          (Some ''notify''),
        ex_world\<lparr>trace := [Called ''notify'' NotImplementedError,
                             Published ''broker''
                               (body ''u1'' (ActionExecuted ACTION_LISTEN_NAME))]\<rparr>)"
proof -
  have 1: "retrieve (TrackerStore (TrackerStore_init None (Some ''broker''))) ''u1'' ex_world = (Inl NotImplementedError, ex_world)"
    by simp
  have 2: "keys (TrackerStore (TrackerStore_init None (Some ''broker''))) ex_world = (Inl NotImplementedError, ex_world)"
    by simp
  have 3: "save (TrackerStore (TrackerStore_init None (Some ''broker''))) (ex_tracker [ActionExecuted ACTION_LISTEN_NAME]) ex_world = (Some NotImplementedError, TrackerStore (TrackerStore_init None (Some ''broker'')), ex_world)"
    by simp
  have 4: "save (TrackerStore (TrackerStore_init None None)) (ex_tracker [ActionExecuted ACTION_LISTEN_NAME])
             (on_tracker_store_error (Some ''notify'') NotImplementedError ex_world)
      = (Some NotImplementedError, TrackerStore (TrackerStore_init None None),
         ex_world\<lparr>trace := [Called ''notify'' NotImplementedError]\<rparr>)"
    by (simp add: on_tracker_store_error_def emit_def ex_world_def)
  have 5: "get_domain (TrackerStore (TrackerStore_init None (Some ''broker''))) = None" "event_broker (get_base (TrackerStore (TrackerStore_init None (Some ''broker'')))) = Some ''broker''"
    "tracker.sender_id (ex_tracker [ActionExecuted ACTION_LISTEN_NAME]) = ''u1''"
    "tracker.events (ex_tracker [ActionExecuted ACTION_LISTEN_NAME]) = [ActionExecuted ACTION_LISTEN_NAME]"
    by (simp_all add: TrackerStore_init_def ex_tracker_def DialogueStateTracker_def)
  from FailSafeTrackerStore_resilience
         [where c = "''notify''" and e = NotImplementedError and w = ex_world
            and p = "TrackerStore (TrackerStore_init None (Some ''broker''))" and sid = "''u1''" and ?w1.0 = ex_world and b = "TrackerStore_init None None"
            and f = None and cb = "Some ''notify''" and t = "ex_tracker [ActionExecuted ACTION_LISTEN_NAME]" and p' = "TrackerStore (TrackerStore_init None (Some ''broker''))"
            and fb = "TrackerStore (TrackerStore_init None None)" and r = "Some NotImplementedError" and fb' = "TrackerStore (TrackerStore_init None None)"
            and ?w2.0 = "ex_world\<lparr>trace := [Called ''notify'' NotImplementedError]\<rparr>"]
       1 2 3 4
  show ?thesis
    unfolding 5 by (simp add: on_tracker_store_error_def emit_def ex_world_def)
qed


section \<open>Decoding a stored tracker\<close>

text \<open>
  C8. \<open>deserialise_tracker\<close> decodes the JSON text of a dialogue into the tracker that
  replays it and emits nothing. On the pickled bytes of the same dialogue it returns the
  same tracker and emits one deprecation warning. A text that is neither is not decoded:
  the error of \<^verbatim>\<open>json.loads\<close> is raised, with no warning. So the warning is emitted
  once per call, when and only when the legacy decoder runs.
\<close>

theorem deserialise_tracker_legacy_decode:
  "deserialise_tracker s sid (Text d) w
     = (Inr (recreate_from_dialogue (init_tracker s sid) d), w)
   \<and> deserialise_tracker s sid (Pickled d) w
     = (Inr (recreate_from_dialogue (init_tracker s sid) d),
        w\<lparr>trace := trace w @
           [DeprecationWarning (''Found pickled tracker for conversation ID '' @ sid)]\<rparr>)
   \<and> deserialise_tracker s sid Malformed w = (Inl JSONDecodeError, w)"
  by (simp add: deserialise_tracker_def deserialize_dialogue_from_pickle_def emit_def)

section \<open>The history limit of the store\<close>

text \<open>
  C9. After \<open>get_or_create_tracker\<close>, whatever the store and whatever the outcome (a
  tracker found, a tracker created, an exception), the store's \<open>max_event_history\<close> is
  the argument of the call, and a tracker made next by \<open>init_tracker\<close> carries it; a
  call with the default \<open>None\<close> after a call with a limit leaves \<open>None\<close>. The attribute
  is written before the retrieval: a tracker found in an in-memory store is already
  rebuilt under the new limit.
\<close>

theorem get_or_create_tracker_overwrites_max_event_history:
  "base.max_event_history (get_base (fst (snd (get_or_create_tracker s sid mh aal w)))) = mh
   \<and> tracker.max_event_history
        (init_tracker (fst (snd (get_or_create_tracker s sid mh aal w))) sid') = mh
   \<and> base.max_event_history
        (get_base (fst (snd (get_or_create_tracker
            (fst (snd (get_or_create_tracker s sid (Some n) aal w))) sid' None aal' w')))) = None
   \<and> (m sid = Some (Text d) \<longrightarrow>
        get_or_create_tracker (InMemoryTrackerStore b m) sid mh aal w
          = (Inr (recreate_from_dialogue
                    (DialogueStateTracker sid (map_option domain.slots (domain b)) mh) d),
             InMemoryTrackerStore (b\<lparr>base.max_event_history := mh\<rparr>) m, w))"
proof -
  have "m sid = Some (Text d) \<longrightarrow>
        get_or_create_tracker (InMemoryTrackerStore b m) sid mh aal w
          = (Inr (recreate_from_dialogue
                    (DialogueStateTracker sid (map_option domain.slots (domain b)) mh) d),
             InMemoryTrackerStore (b\<lparr>base.max_event_history := mh\<rparr>) m, w)"
    by (simp add: get_or_create_tracker_def deserialise_tracker_def init_tracker_def
          split: option.splits)
  then show ?thesis
    by (simp add: get_base_get_or_create_tracker init_tracker_def DialogueStateTracker_def)
qed

theorem get_or_create_tracker_overwrites_max_event_history_witness:
  "get_or_create_tracker
     (InMemoryTrackerStore ((TrackerStore_init None None)\<lparr>base.max_event_history := Some 5\<rparr>)
        [''u1'' \<mapsto> Text \<lparr>name = ''u1'', events = [SessionStarted, ActionExecuted ''greet'']\<rparr>])
     ''u1'' (Some 1) True ex_world
   = (Inr ((DialogueStateTracker ''u1'' None (Some 1))\<lparr>tracker.events := [ActionExecuted ''greet'']\<rparr>),
      InMemoryTrackerStore ((TrackerStore_init None None)\<lparr>base.max_event_history := Some 1\<rparr>)
        [''u1'' \<mapsto> Text \<lparr>name = ''u1'', events = [SessionStarted, ActionExecuted ''greet'']\<rparr>],
      ex_world)"
  using get_or_create_tracker_overwrites_max_event_history
    [where m = "[''u1'' \<mapsto> Text \<lparr>name = ''u1'', events = [SessionStarted, ActionExecuted ''greet'']\<rparr>]"
       and sid = "''u1''"
       and d = "\<lparr>name = ''u1'', events = [SessionStarted, ActionExecuted ''greet'']\<rparr>"
       and b = "(TrackerStore_init None None)\<lparr>base.max_event_history := Some 5\<rparr>"
       and mh = "Some 1" and aal = True and w = ex_world]
  by (simp add: TrackerStore_init_def recreate_from_dialogue_def DialogueStateTracker_def deque_extend_def)

section \<open>The in-memory store\<close>

text \<open>
  C10. \<open>save\<close> on an in-memory store leaves the attributes of the store as they are and
  changes the backing map at most at the tracker's sender id: for any other conversation
  id the stored text and the result of \<open>retrieve\<close> are unchanged, and \<open>keys\<close> keeps
  every key and gains at most that sender id.
\<close>

theorem InMemoryTrackerStore_save_frame:
  assumes "sid \<noteq> tracker.sender_id t"
  shows "\<exists>m'. fst (snd (save (InMemoryTrackerStore b m) t w)) = InMemoryTrackerStore b m'
           \<and> m' sid = m sid
           \<and> retrieve (InMemoryTrackerStore b m') sid w0
               = retrieve (InMemoryTrackerStore b m) sid w0
           \<and> keys (InMemoryTrackerStore b m') w0 = (Inr (dom m'), w0)
           \<and> keys (InMemoryTrackerStore b m) w0 = (Inr (dom m), w0)
           \<and> dom m \<subseteq> dom m' \<and> dom m' \<subseteq> insert (tracker.sender_id t) (dom m)"
proof -
  from InMemoryTrackerStore_save_cases [of b m t w]
  show ?thesis
  proof
    assume "fst (snd (InMemoryTrackerStore_save b m t w)) = InMemoryTrackerStore b m"
    then show ?thesis by (intro exI [of _ m]) auto
  next
    let ?m = "m(tracker.sender_id t \<mapsto> serialise_tracker t)"
    assume "fst (snd (InMemoryTrackerStore_save b m t w)) = InMemoryTrackerStore b ?m"
    moreover have "?m sid = m sid" using assms by simp
    moreover from this have "retrieve (InMemoryTrackerStore b ?m) sid w0
        = retrieve (InMemoryTrackerStore b m) sid w0"
      by (rule retrieve_InMemory_cong)
    ultimately show ?thesis by (intro exI [of _ ?m]) auto
  qed
qed

theorem InMemoryTrackerStore_save_frame_witness:
  "\<exists>m'. fst (snd (save (InMemoryTrackerStore (TrackerStore_init None (Some ''broker''))
                         [''u2'' \<mapsto> Text \<lparr>name = ''u2'', events = [SessionStarted]\<rparr>])
                      (ex_tracker [ActionExecuted ACTION_LISTEN_NAME]) ex_world))
          = InMemoryTrackerStore (TrackerStore_init None (Some ''broker'')) m'
      \<and> m' ''u2'' = Some (Text \<lparr>name = ''u2'', events = [SessionStarted]\<rparr>)
      \<and> retrieve (InMemoryTrackerStore (TrackerStore_init None (Some ''broker'')) m') ''u2'' ex_world
          = retrieve (InMemoryTrackerStore (TrackerStore_init None (Some ''broker''))
                        [''u2'' \<mapsto> Text \<lparr>name = ''u2'', events = [SessionStarted]\<rparr>])
              ''u2'' ex_world
      \<and> keys (InMemoryTrackerStore (TrackerStore_init None (Some ''broker'')) m') ex_world
          = (Inr (dom m'), ex_world)
      \<and> {''u2''} \<subseteq> dom m' \<and> dom m' \<subseteq> {''u1'', ''u2''}"
  using InMemoryTrackerStore_save_frame
    [where sid = "''u2''" and t = "ex_tracker [ActionExecuted ACTION_LISTEN_NAME]"
       and b = "TrackerStore_init None (Some ''broker'')"
       and m = "[''u2'' \<mapsto> Text \<lparr>name = ''u2'', events = [SessionStarted]\<rparr>]"
       and w = ex_world and ?w0.0 = ex_world]
  by (simp add: ex_tracker_def DialogueStateTracker_def)

end
